theory Spec2Isabelle
  imports Main "HOL-Library.Char_ord" "HOL-Library.List_Lexorder" "HOL-Library.AList"
begin

section \<open>Python values\<close>

text \<open>
  The program handles the decoded JSON of two web services and of its own configuration
  file as plain Python objects. A decoded JSON document is \<open>None\<close>, a boolean, an
  integer, a string, a list or a dictionary; a dictionary is kept as an association list
  in insertion order. Numbers with a fraction are left out. Strings are byte lists and
  all character functions below (\<open>lower\<close>, \<open>isdigit\<close>, \<open>int\<close>) are the
  ASCII part of Python's.
\<close>

datatype json = JNull | JBool bool | JInt int | JStr string | JArr "json list"
  | JObj "(string \<times> json) list"

text \<open>Hashable scalars: what can be a dictionary key or a member of a set.\<close>

datatype key = KNone | KBool bool | KInt int | KStr string

text \<open>The body and the headers of an HTTP response, as \<open>requests\<close> hands them out.\<close>

record response =
  status_code :: int
  headers :: "(string \<times> string) list"
  json_body :: "json option"
  body_text :: string

datatype exn = AttributeError | TypeError | ValueError | OverflowError | IndexError | KeyError
  | IOError | JSONDecodeError | ConnectionError | HTTPError response

text \<open>
  \<open>requests.exceptions.RequestException\<close> and its subclasses; the decoding error
  of \<open>response.json()\<close> is one of them (requests 2.27 and later).
\<close>

fun is_request_exception :: "exn \<Rightarrow> bool" where
  "is_request_exception ConnectionError = True"
| "is_request_exception (HTTPError r) = True"
| "is_request_exception JSONDecodeError = True"
| "is_request_exception e = False"

text \<open>The attribute \<open>e.response\<close> of a caught request exception.\<close>

fun exn_response :: "exn \<Rightarrow> response option" where
  "exn_response (HTTPError r) = Some r"
| "exn_response e = None"

text \<open>Truth value testing: \<open>if x\<close>, \<open>not x\<close>, \<open>x and y\<close>.\<close>

fun truthy :: "json \<Rightarrow> bool" where
  "truthy JNull = False"
| "truthy (JBool b) = b"
| "truthy (JInt i) = (i \<noteq> 0)"
| "truthy (JStr s) = (s \<noteq> [])"
| "truthy (JArr xs) = (xs \<noteq> [])"
| "truthy (JObj kvs) = (kvs \<noteq> [])"

text \<open>\<open>x.get(k, d)\<close>: only a dictionary has the method.\<close>

fun dict_get :: "json \<Rightarrow> string \<Rightarrow> json \<Rightarrow> exn + json" where
  "dict_get (JObj kvs) k d = Inr (case map_of kvs k of None \<Rightarrow> d | Some v \<Rightarrow> v)"
| "dict_get x k d = Inl AttributeError"

text \<open>\<open>x[k] = v\<close> on a dictionary: an existing key keeps its place, a new one goes last.\<close>

fun dict_set :: "json \<Rightarrow> string \<Rightarrow> json \<Rightarrow> exn + json" where
  "dict_set (JObj kvs) k v = Inr (JObj (AList.update k v kvs))"
| "dict_set x k v = Inl TypeError"

text \<open>\<open>len(x)\<close> and \<open>for y in x\<close>.\<close>

fun py_len :: "json \<Rightarrow> exn + nat" where
  "py_len (JArr xs) = Inr (length xs)"
| "py_len (JObj kvs) = Inr (length kvs)"
| "py_len (JStr s) = Inr (length s)"
| "py_len x = Inl TypeError"

fun py_iter :: "json \<Rightarrow> exn + json list" where
  "py_iter (JArr xs) = Inr xs"
| "py_iter (JObj kvs) = Inr (map (\<lambda>kv. JStr (fst kv)) kvs)"
| "py_iter (JStr s) = Inr (map (\<lambda>c. JStr [c]) s)"
| "py_iter x = Inl TypeError"

subsection \<open>Integers and their decimal text\<close>

definition digit_char :: "nat \<Rightarrow> char" where
  "digit_char n = ''0123456789'' ! n"

definition is_digit :: "char \<Rightarrow> bool" where
  "is_digit c = (c \<in> set ''0123456789'')"

definition digit_val :: "char \<Rightarrow> nat" where
  "digit_val c = (case map_of (zip ''0123456789'' [0, 1, 2, 3, 4, 5, 6, 7, 8, 9]) c of
     None \<Rightarrow> 0 | Some n \<Rightarrow> n)"

function str_nat :: "nat \<Rightarrow> string" where
  "str_nat n = (if n < 10 then [digit_char n] else str_nat (n div 10) @ [digit_char (n mod 10)])"
  by pat_completeness auto
termination
  by (relation "measure id") auto

declare str_nat.simps [simp del]

text \<open>\<open>str(i)\<close> for an integer.\<close>

definition str_int :: "int \<Rightarrow> string" where
  "str_int i = (if i < 0 then CHR ''-'' # str_nat (nat (- i)) else str_nat (nat i))"

text \<open>
  \<open>s.isdigit()\<close>: at least one character, and every character a digit. The characters
  are those of Latin-1; there the superscripts two, three and one count as digits for
  \<open>isdigit\<close>, though \<open>int\<close> does not read them.
\<close>

definition isdigit :: "string \<Rightarrow> bool" where
  "isdigit s = (s \<noteq> [] \<and> list_all (\<lambda>c. is_digit c \<or> c \<in> set [CHR 0xB2, CHR 0xB3, CHR 0xB9]) s)"

text \<open>
  \<open>int(s)\<close> for a string: white space around the number is dropped, a sign may
  come first, and single underscores may stand between digits.
\<close>

definition is_space :: "char \<Rightarrow> bool" where
  "is_space c = (c \<in> set [CHR 0x20, CHR 0x09, CHR 0x0A, CHR 0x0B, CHR 0x0C, CHR 0x0D,
     CHR 0x1C, CHR 0x1D, CHR 0x1E, CHR 0x1F, CHR 0x85, CHR 0xA0])"

definition strip :: "string \<Rightarrow> string" where
  "strip s = rev (dropWhile is_space (rev (dropWhile is_space s)))"

fun digits_ok :: "string \<Rightarrow> bool" where
  "digits_ok [] = False"
| "digits_ok [c] = is_digit c"
| "digits_ok (c # d # cs) =
     (is_digit c \<and> (if d = CHR ''_'' then digits_ok cs else digits_ok (d # cs)))"

definition digits_value :: "string \<Rightarrow> nat" where
  "digits_value s = foldl (\<lambda>a c. 10 * a + digit_val c) 0 (filter is_digit s)"

definition int_of_str :: "string \<Rightarrow> exn + int" where
  "int_of_str s =
     (let t = strip s;
          neg = (t \<noteq> [] \<and> hd t = CHR ''-'');
          u = (if t \<noteq> [] \<and> (hd t = CHR ''-'' \<or> hd t = CHR ''+'') then tl t else t)
      in if digits_ok u
         then Inr (if neg then - int (digits_value u) else int (digits_value u))
         else Inl ValueError)"

text \<open>\<open>str(k)\<close> of a hashable scalar, as an f-string interpolates it.\<close>

fun py_str :: "key \<Rightarrow> string" where
  "py_str KNone = ''None''"
| "py_str (KBool b) = (if b then ''True'' else ''False'')"
| "py_str (KInt i) = str_int i"
| "py_str (KStr s) = s"

text \<open>\<open>s.lower()\<close> and \<open>s.endswith(t)\<close>.\<close>

definition lower_char :: "char \<Rightarrow> char" where
  "lower_char c =
     (case map_of (zip ''ABCDEFGHIJKLMNOPQRSTUVWXYZ'' ''abcdefghijklmnopqrstuvwxyz'') c of
        None \<Rightarrow> c | Some d \<Rightarrow> d)"

definition lower :: "string \<Rightarrow> string" where
  "lower s = map lower_char s"

definition endswith :: "string \<Rightarrow> string \<Rightarrow> bool" where
  "endswith s t = (length t \<le> length s \<and> drop (length s - length t) s = t)"

section \<open>The application and its surroundings\<close>

text \<open>
  A message is kept as its f-string template and the values interpolated into it, in the
  order of the holes.
\<close>

datatype arg = V json | K key | N int | S string | E exn | M msg
  and msg = Msg string "arg list"

text \<open>
  The JSON body of a task creation: \<open>content\<close>, \<open>description\<close> and, when there is
  one, \<open>due_date\<close>. The two texts are f-strings and kept as messages.
\<close>

record task_data =
  content :: msg
  description :: msg
  due_date :: "string option"

text \<open>A request is its URL, its headers, its body if it is a POST, and its timeout.\<close>

datatype request =
    GET string "(string \<times> string) list" nat
  | POST string "(string \<times> string) list" task_data nat

datatype dialog = ShowError | ShowWarning | ShowInfo

text \<open>
  Everything the program does to the outside is recorded, in order: log lines, HTTP
  requests, sleeps (in milliseconds), message boxes and writes of the configuration
  file.
\<close>

datatype event = Log msg | Request request | Sleep int | Dialog dialog string msg
  | WriteConfig json

text \<open>
  The configuration file \<open>config.json\<close>: missing, unreadable (opening it raises
  \<open>IOError\<close>), not JSON (decoding it raises \<open>JSONDecodeError\<close>), or a JSON
  document.
\<close>

datatype cfile = NoFile | Unreadable | NotJson | JsonFile json

text \<open>
  The fields of \<open>StandaloneCanvasTodoistSyncApp\<close> the engine reads and writes, the
  configuration file, and the record of effects. A button is its text and its state.
  \<open>sent\<close> counts the HTTP requests made so far.
\<close>

record app =
  canvas_url :: string
  canvas_api_key :: string
  todoist_api_key :: string
  is_syncing :: bool
  is_fetching_courses :: bool
  course_checkbox_vars :: "(key \<times> bool) list"
  sync_button :: "string \<times> string"
  fetch_courses_button :: "string \<times> string"
  config_file :: cfile
  trace :: "event list"
  sent :: nat

text \<open>
  What the program cannot decide: the answer to the n-th HTTP request (none at all when
  the connection fails or times out), the interpreter's \<open>hash\<close>, the day
  \<open>datetime.fromisoformat(t).strftime('%Y-%m-%d')\<close> gives for a text (none when it
  raises \<open>ValueError\<close>), whether the configuration file can be opened for writing,
  and the longest sleep, in seconds, the platform accepts.
\<close>

datatype reply = NoReply | Reply response

record world =
  http :: "nat \<Rightarrow> request \<Rightarrow> reply"
  py_hash :: "json \<Rightarrow> int"
  isoformat_day :: "string \<Rightarrow> string option"
  write_fails :: bool
  max_sleep :: int

definition emit :: "event \<Rightarrow> app \<Rightarrow> app" where
  "emit e s = s\<lparr>trace := trace s @ [e]\<rparr>"

text \<open>\<open>self.log(message)\<close>\<close>

definition log :: "msg \<Rightarrow> app \<Rightarrow> app" where
  "log m s = emit (Log m) s"

text \<open>\<open>requests.get\<close> and \<open>requests.post\<close>: a response, or a request exception.\<close>

definition send :: "world \<Rightarrow> request \<Rightarrow> app \<Rightarrow> (exn + response) \<times> app" where
  "send w r s =
     (case http w (sent s) r of NoReply \<Rightarrow> Inl ConnectionError | Reply resp \<Rightarrow> Inr resp,
      (emit (Request r) s)\<lparr>sent := Suc (sent s)\<rparr>)"

text \<open>\<open>response.raise_for_status()\<close> and \<open>response.json()\<close>\<close>

definition raise_for_status :: "response \<Rightarrow> exn + unit" where
  "raise_for_status r =
     (if 400 \<le> status_code r \<and> status_code r < 600 then Inl (HTTPError r) else Inr ())"

definition response_json :: "response \<Rightarrow> exn + json" where
  "response_json r = (case json_body r of None \<Rightarrow> Inl JSONDecodeError | Some j \<Rightarrow> Inr j)"

text \<open>
  The three lines every Canvas call consists of: \<open>requests.get\<close>,
  \<open>raise_for_status\<close>, \<open>json\<close>.
\<close>

definition get_json ::
  "world \<Rightarrow> string \<Rightarrow> (string \<times> string) list \<Rightarrow> nat \<Rightarrow> app \<Rightarrow> (exn + json) \<times> app" where
  "get_json w url hdrs timeout s =
     (case send w (GET url hdrs timeout) s of
        (Inl e, s1) \<Rightarrow> (Inl e, s1)
      | (Inr resp, s1) \<Rightarrow>
          (case raise_for_status resp of
             Inl e \<Rightarrow> (Inl e, s1)
           | Inr u \<Rightarrow> (response_json resp, s1)))"

section \<open>The assignment collector\<close>

text \<open>
  \<open>assign.get('submission') and assign['submission'].get('submitted_at')\<close>: the
  value the condition of line 235 tests.
\<close>

definition submitted_at :: "json \<Rightarrow> exn + json" where
  "submitted_at assign =
     (case dict_get assign ''submission'' JNull of
        Inl e \<Rightarrow> Inl e
      | Inr sub \<Rightarrow> if truthy sub then dict_get sub ''submitted_at'' JNull else Inr sub)"

text \<open>
  The loop over the assignments of one course (lines 234 to 239). An exception leaves
  the loop; what was appended before stays appended.
\<close>

fun scan_assignments :: "json \<Rightarrow> json list \<Rightarrow> app \<Rightarrow> json list \<Rightarrow> exn option \<times> app \<times> json list" where
  "scan_assignments course_name [] s all_assignments = (None, s, all_assignments)"
| "scan_assignments course_name (assign # rest) s all_assignments =
     (case submitted_at assign of
        Inl e \<Rightarrow> (Some e, s, all_assignments)
      | Inr t \<Rightarrow>
          if truthy t
          then (case dict_get assign ''name'' JNull of
                  Inl e \<Rightarrow> (Some e, s, all_assignments)
                | Inr name \<Rightarrow>
                    scan_assignments course_name rest
                      (log (Msg ''  Skipping already submitted assignment: {}'' [V name]) s)
                      all_assignments)
          else (case dict_set assign ''course_name'' course_name of
                  Inl e \<Rightarrow> (Some e, s, all_assignments)
                | Inr assign' \<Rightarrow>
                    scan_assignments course_name rest s (all_assignments @ [assign'])))"

text \<open>
  \<open>course_data.get('course_code', course_data.get('name', f"Course {course_id}"))\<close>
\<close>

definition course_label :: "json \<Rightarrow> key \<Rightarrow> exn + json" where
  "course_label course_data course_id =
     (case dict_get course_data ''name'' (JStr (''Course '' @ py_str course_id)) of
        Inl e \<Rightarrow> Inl e
      | Inr d \<Rightarrow> dict_get course_data ''course_code'' d)"

definition course_info_url :: "string \<Rightarrow> key \<Rightarrow> string" where
  "course_info_url canvas_base course_id = canvas_base @ ''api/v1/courses/'' @ py_str course_id"

definition assignments_url :: "string \<Rightarrow> key \<Rightarrow> string" where
  "assignments_url canvas_base course_id =
     canvas_base @ ''api/v1/courses/'' @ py_str course_id
       @ ''/assignments?bucket=upcoming&include[]=submission&per_page=100''"

text \<open>
  The body of the \<open>try\<close> of one course (lines 221 to 239): the exception that ended
  it, if any, with the state and the list as they are then.
\<close>

definition fetch_course ::
  "world \<Rightarrow> string \<Rightarrow> (string \<times> string) list \<Rightarrow> key \<Rightarrow> app \<Rightarrow> json list
     \<Rightarrow> exn option \<times> app \<times> json list" where
  "fetch_course w canvas_base hdrs course_id s all_assignments =
     (case get_json w (course_info_url canvas_base course_id) hdrs 10 s of
        (Inl e, s1) \<Rightarrow> (Some e, s1, all_assignments)
      | (Inr course_data, s1) \<Rightarrow>
     (case course_label course_data course_id of
        Inl e \<Rightarrow> (Some e, s1, all_assignments)
      | Inr course_name \<Rightarrow>
     (case get_json w (assignments_url canvas_base course_id) hdrs 20 s1 of
        (Inl e, s2) \<Rightarrow> (Some e, s2, all_assignments)
      | (Inr assignments, s2) \<Rightarrow>
     (case py_len assignments of
        Inl e \<Rightarrow> (Some e, s2, all_assignments)
      | Inr n \<Rightarrow>
     (case py_iter assignments of
        Inl e \<Rightarrow> (Some e, s2, all_assignments)
      | Inr items \<Rightarrow>
          scan_assignments course_name items
            (log (Msg ''  Found {} upcoming assignments for {}.'' [N (int n), V course_name]) s2)
            all_assignments)))))"

text \<open>The two \<open>except\<close> clauses of the loop (lines 241 to 251): log, then go on.\<close>

definition course_error :: "key \<Rightarrow> exn \<Rightarrow> msg" where
  "course_error course_id e =
     (if is_request_exception e
      then (case exn_response e of
              None \<Rightarrow> Msg ''Canvas API Error for course {}: {}'' [K course_id, E e]
            | Some r \<Rightarrow> Msg ''Canvas API Error for course {}: {} - {}''
                [K course_id, N (status_code r), S (body_text r)])
      else Msg ''Unexpected error fetching assignments for course {}: {}'' [K course_id, E e])"

text \<open>The loop over the selected courses (lines 215 to 251); \<open>i\<close> is the index.\<close>

fun course_loop ::
  "world \<Rightarrow> string \<Rightarrow> (string \<times> string) list \<Rightarrow> nat \<Rightarrow> nat \<Rightarrow> key list \<Rightarrow> app \<Rightarrow> json list
     \<Rightarrow> app \<times> json list" where
  "course_loop w canvas_base hdrs total_courses i [] s all_assignments = (s, all_assignments)"
| "course_loop w canvas_base hdrs total_courses i (course_id # rest) s all_assignments =
     (case fetch_course w canvas_base hdrs course_id
             (log (Msg ''Fetching assignments for selected course {}/{} (ID: {})...''
                [N (int i + 1), N (int total_courses), K course_id]) s)
             all_assignments of
        (None, s1, all1) \<Rightarrow> course_loop w canvas_base hdrs total_courses (Suc i) rest s1 all1
      | (Some e, s1, all1) \<Rightarrow>
          course_loop w canvas_base hdrs total_courses (Suc i) rest
            (log (course_error course_id e) s1) all1)"

definition with_slash :: "string \<Rightarrow> string" where
  "with_slash canvas_base = (if endswith canvas_base ''/'' then canvas_base else canvas_base @ ''/'')"

definition bearer :: "string \<Rightarrow> (string \<times> string) list" where
  "bearer api_key = [(''Authorization'', ''Bearer '' @ api_key)]"

text \<open>
  \<open>get_canvas_assignments_for_courses\<close> (lines 199 to 254). The result is the pair the
  Python returns: the list or \<open>None\<close>, and the error message or \<open>None\<close>.
\<close>

definition get_canvas_assignments_for_courses ::
  "world \<Rightarrow> key list \<Rightarrow> app \<Rightarrow> (json list option \<times> msg option) \<times> app" where
  "get_canvas_assignments_for_courses w course_ids s =
     (if canvas_url s = [] \<or> canvas_api_key s = []
      then ((None, Some (Msg ''Canvas URL or API Key missing.'' [])),
            log (Msg ''Canvas URL or API Key missing.'' []) s)
      else if course_ids = []
      then ((Some [], None), log (Msg ''No courses selected for sync.'' []) s)
      else (case course_loop w (with_slash (canvas_url s)) (bearer (canvas_api_key s))
                   (length course_ids) 0 course_ids s [] of
              (s1, all_assignments) \<Rightarrow>
                ((Some all_assignments, None),
                 log (Msg ''Total upcoming, unsubmitted assignments fetched for selected courses: {}''
                   [N (int (length all_assignments))]) s1)))"

section \<open>The course lister\<close>

text \<open>\<open>[c for c in courses if c.get('id') and c.get('name')]\<close> (line 177)\<close>

fun valid_courses :: "json list \<Rightarrow> exn + json list" where
  "valid_courses [] = Inr []"
| "valid_courses (c # cs) =
     (case dict_get c ''id'' JNull of
        Inl e \<Rightarrow> Inl e
      | Inr i \<Rightarrow>
     (case (if truthy i then dict_get c ''name'' JNull else Inr i) of
        Inl e \<Rightarrow> Inl e
      | Inr t \<Rightarrow>
     (case valid_courses cs of
        Inl e \<Rightarrow> Inl e
      | Inr vs \<Rightarrow> Inr (if truthy t then c # vs else vs))))"

text \<open>
  The sort key of line 178, \<open>x.get('course_code', x.get('name', '')).lower()\<close>: only a
  string has \<open>lower\<close>.
\<close>

definition course_key :: "json \<Rightarrow> exn + string" where
  "course_key x =
     (case dict_get x ''name'' (JStr []) of
        Inl e \<Rightarrow> Inl e
      | Inr d \<Rightarrow>
     (case dict_get x ''course_code'' d of
        Inl e \<Rightarrow> Inl e
      | Inr (JStr t) \<Rightarrow> Inr (lower t)
      | Inr v \<Rightarrow> Inl AttributeError))"

text \<open>
  \<open>list.sort(key=...)\<close> computes the key of every element first, then sorts stably by
  the keys alone.
\<close>

fun keyed :: "json list \<Rightarrow> exn + (string \<times> json) list" where
  "keyed [] = Inr []"
| "keyed (x # xs) =
     (case course_key x of
        Inl e \<Rightarrow> Inl e
      | Inr k \<Rightarrow> (case keyed xs of Inl e \<Rightarrow> Inl e | Inr ks \<Rightarrow> Inr ((k, x) # ks)))"

definition sort_courses :: "json list \<Rightarrow> exn + json list" where
  "sort_courses xs = (case keyed xs of Inl e \<Rightarrow> Inl e | Inr ks \<Rightarrow> Inr (map snd (sort_key fst ks)))"

text \<open>The body of the \<open>try\<close> of \<open>get_canvas_courses\<close> (lines 172 to 180).\<close>

definition fetch_courses ::
  "world \<Rightarrow> string \<Rightarrow> (string \<times> string) list \<Rightarrow> app \<Rightarrow> (exn + json list) \<times> app" where
  "fetch_courses w courses_url hdrs s =
     (case get_json w courses_url hdrs 20 (log (Msg ''Fetching active courses from Canvas...'' []) s) of
        (Inl e, s1) \<Rightarrow> (Inl e, s1)
      | (Inr courses, s1) \<Rightarrow>
     (case py_iter courses of
        Inl e \<Rightarrow> (Inl e, s1)
      | Inr cs \<Rightarrow>
     (case valid_courses cs of
        Inl e \<Rightarrow> (Inl e, s1)
      | Inr vs \<Rightarrow>
     (case sort_courses vs of
        Inl e \<Rightarrow> (Inl e, s1)
      | Inr sorted_courses \<Rightarrow>
          (Inr sorted_courses,
           log (Msg ''Found {} valid active courses.'' [N (int (length sorted_courses))]) s1)))))"

text \<open>\<open>x[0]\<close>\<close>

fun subscript0 :: "json \<Rightarrow> exn + json" where
  "subscript0 (JArr []) = Inl IndexError"
| "subscript0 (JArr (x # xs)) = Inr x"
| "subscript0 (JStr []) = Inl IndexError"
| "subscript0 (JStr (c # cs)) = Inr (JStr [c])"
| "subscript0 (JObj kvs) = Inl KeyError"
| "subscript0 x = Inl TypeError"

text \<open>
  \<open>e.response.json().get('errors', [{}])[0].get('message', str(e))\<close> (line 186)
\<close>

definition error_detail :: "response \<Rightarrow> exn \<Rightarrow> exn + arg" where
  "error_detail r e =
     (case response_json r of
        Inl x \<Rightarrow> Inl x
      | Inr j \<Rightarrow>
     (case dict_get j ''errors'' (JArr [JObj []]) of
        Inl x \<Rightarrow> Inl x
      | Inr errs \<Rightarrow>
     (case subscript0 errs of
        Inl x \<Rightarrow> Inl x
      | Inr (JObj kvs) \<Rightarrow> Inr (case map_of kvs ''message'' of None \<Rightarrow> E e | Some v \<Rightarrow> V v)
      | Inr v \<Rightarrow> Inl AttributeError)))"

text \<open>
  The handler of a request exception (lines 183 to 191): the message, or the exception
  its inner \<open>try\<close> does not catch.
\<close>

definition courses_request_error :: "exn \<Rightarrow> exn + msg" where
  "courses_request_error e =
     (case exn_response e of
        None \<Rightarrow> Inr (Msg ''Canvas API Error fetching courses: {}'' [E e])
      | Some r \<Rightarrow>
          (case error_detail r e of
             Inr d \<Rightarrow>
               Inr (if status_code r = 401
                    then Msg ''Canvas API Error: {} (Status: {}) - Check API Key/URL.''
                           [d, N (status_code r)]
                    else Msg ''Canvas API Error: {} (Status: {})'' [d, N (status_code r)])
           | Inl x \<Rightarrow>
               if x = JSONDecodeError \<or> x = IndexError \<or> x = AttributeError
               then Inr (Msg ''Canvas API Error: {} - {}'' [N (status_code r), S (body_text r)])
               else Inl x))"

text \<open>
  \<open>get_canvas_courses\<close> (lines 158 to 196): the pair it returns, or the exception that
  leaves it.
\<close>

definition get_canvas_courses ::
  "world \<Rightarrow> app \<Rightarrow> (exn + json list option \<times> msg option) \<times> app" where
  "get_canvas_courses w s =
     (if canvas_url s = [] \<or> canvas_api_key s = []
      then (Inr (None, Some (Msg ''Canvas URL or API Key missing.'' [])),
            log (Msg ''Canvas URL or API Key missing.'' []) s)
      else
        (case fetch_courses w
                (with_slash (canvas_url s) @ ''api/v1/courses?enrollment_state=active&per_page=100'')
                (bearer (canvas_api_key s)) s of
           (Inr vs, s1) \<Rightarrow> (Inr (Some vs, None), s1)
         | (Inl e, s1) \<Rightarrow>
             if is_request_exception e
             then (case courses_request_error e of
                     Inl x \<Rightarrow> (Inl x, s1)
                   | Inr m \<Rightarrow> (Inr (None, Some m), log m s1))
             else (Inr (None, Some (Msg ''Unexpected error fetching courses: {}'' [E e])),
                   log (Msg ''Unexpected error fetching courses: {}'' [E e]) s1)))"

section \<open>The task publisher\<close>

text \<open>\<open>assignment.get('html_url', assignment.get('id'))\<close>: what is hashed (line 267).\<close>

definition hash_input :: "json \<Rightarrow> exn + json" where
  "hash_input assignment =
     (case dict_get assignment ''id'' JNull of
        Inl e \<Rightarrow> Inl e
      | Inr d \<Rightarrow> dict_get assignment ''html_url'' d)"

text \<open>\<open>hash(x)\<close>: lists and dictionaries are unhashable.\<close>

fun hash_of :: "world \<Rightarrow> json \<Rightarrow> exn + int" where
  "hash_of w (JArr xs) = Inl TypeError"
| "hash_of w (JObj kvs) = Inl TypeError"
| "hash_of w x = Inr (py_hash w x)"

text \<open>\<open>t.replace('Z', '+00:00')\<close>\<close>

definition replace_Z :: "string \<Rightarrow> string" where
  "replace_Z t = concat (map (\<lambda>c. if c = CHR ''Z'' then ''+00:00'' else [c]) t)"

text \<open>
  The due date (lines 273 to 279): none when \<open>due_at\<close> is missing or falsy or does not
  parse; a truthy \<open>due_at\<close> that is not a string has no \<open>replace\<close>.
\<close>

definition due_string :: "world \<Rightarrow> json \<Rightarrow> app \<Rightarrow> (exn + string option) \<times> app" where
  "due_string w assignment s =
     (case dict_get assignment ''due_at'' JNull of
        Inl e \<Rightarrow> (Inl e, s)
      | Inr d \<Rightarrow>
          if \<not> truthy d then (Inr None, s)
          else (case d of
                  JStr t \<Rightarrow>
                    (case isoformat_day w (replace_Z t) of
                       Some day \<Rightarrow> (Inr (Some day), s)
                     | None \<Rightarrow> (Inr None, log (Msg ''Could not parse due date: {}'' [V d]) s))
                | _ \<Rightarrow> (Inl AttributeError, s)))"

text \<open>
  The request \<open>create_todoist_task\<close> builds (lines 264 to 282), or the exception raised
  while building it.
\<close>

definition task_request :: "world \<Rightarrow> json \<Rightarrow> app \<Rightarrow> (exn + request) \<times> app" where
  "task_request w assignment s =
     (case hash_input assignment of
        Inl e \<Rightarrow> (Inl e, s)
      | Inr x \<Rightarrow>
     (case hash_of w x of
        Inl e \<Rightarrow> (Inl e, s)
      | Inr h \<Rightarrow>
     (case dict_get assignment ''course_name'' (JStr ''Canvas'') of
        Inl e \<Rightarrow> (Inl e, s)
      | Inr course_name \<Rightarrow>
     (case dict_get assignment ''name'' (JStr ''Untitled Assignment'') of
        Inl e \<Rightarrow> (Inl e, s)
      | Inr name \<Rightarrow>
     (case dict_get assignment ''html_url'' (JStr ''No link available'') of
        Inl e \<Rightarrow> (Inl e, s)
      | Inr link \<Rightarrow>
     (case due_string w assignment s of
        (Inl e, s1) \<Rightarrow> (Inl e, s1)
      | (Inr due, s1) \<Rightarrow>
          (Inr (POST ''https://api.todoist.com/rest/v2/tasks''
                  [(''Authorization'', ''Bearer '' @ todoist_api_key s),
                   (''Content-Type'', ''application/json''),
                   (''X-Request-Id'', str_int h)]
                  \<lparr>content = Msg ''[{}] {}'' [V course_name, V name],
                   description = Msg ''Link: {}'' [V link],
                   due_date = (case due of None \<Rightarrow> None
                               | Some d \<Rightarrow> if d = [] then None else Some d)\<rparr>
                  15),
           s1)))))))"

text \<open>\<open>response.headers.get(k)\<close>: header names are matched without regard to case.\<close>

definition header_get :: "(string \<times> string) list \<Rightarrow> string \<Rightarrow> string option" where
  "header_get hs k = map_of (map (\<lambda>kv. (lower (fst kv), snd kv)) hs) (lower k)"

text \<open>
  \<open>time.sleep(n)\<close> for a whole number of seconds: a negative one raises
  \<open>ValueError\<close>, one beyond the platform's limit \<open>OverflowError\<close>.
\<close>

definition time_sleep :: "world \<Rightarrow> int \<Rightarrow> app \<Rightarrow> (exn + unit) \<times> app" where
  "time_sleep w n s =
     (if n < 0 then (Inl ValueError, s)
      else if max_sleep w < n then (Inl OverflowError, s)
      else (Inr (), emit (Sleep (1000 * n)) s))"

text \<open>The branch taken on status 429 (lines 287 to 290).\<close>

definition rate_limited :: "world \<Rightarrow> request \<Rightarrow> response \<Rightarrow> app \<Rightarrow> (exn + response) \<times> app" where
  "rate_limited w req resp s =
     (case (case header_get (headers resp) ''Retry-After'' of
              None \<Rightarrow> Inr 10
            | Some v \<Rightarrow> int_of_str v) of
        Inl e \<Rightarrow> (Inl e, s)
      | Inr retry_after \<Rightarrow>
          (case time_sleep w retry_after
                  (log (Msg ''Todoist rate limit hit. Waiting {} seconds...'' [N retry_after]) s) of
             (Inl e, s1) \<Rightarrow> (Inl e, s1)
           | (Inr u, s1) \<Rightarrow> send w req s1))"

text \<open>The body of the \<open>try\<close> of \<open>create_todoist_task\<close> (lines 285 to 294).\<close>

definition post_task :: "world \<Rightarrow> request \<Rightarrow> json \<Rightarrow> app \<Rightarrow> (exn + json) \<times> app" where
  "post_task w req assignment s =
     (case send w req s of
        (Inl e, s1) \<Rightarrow> (Inl e, s1)
      | (Inr resp, s1) \<Rightarrow>
     (case (if status_code resp = 429 then rate_limited w req resp s1 else (Inr resp, s1)) of
        (Inl e, s2) \<Rightarrow> (Inl e, s2)
      | (Inr resp2, s2) \<Rightarrow>
     (case raise_for_status resp2 of
        Inl e \<Rightarrow> (Inl e, s2)
      | Inr u \<Rightarrow>
     (case dict_get assignment ''name'' JNull of
        Inl e \<Rightarrow> (Inl e, s2)
      | Inr name \<Rightarrow>
          (response_json resp2,
           log (Msg ''Successfully created Todoist task for: {}'' [V name]) s2)))))"

text \<open>The two \<open>except\<close> clauses (lines 296 to 308).\<close>

definition todoist_error :: "exn \<Rightarrow> msg" where
  "todoist_error e =
     (if is_request_exception e
      then (case exn_response e of
              None \<Rightarrow> Msg ''Todoist API Error: {}'' [E e]
            | Some r \<Rightarrow>
                if status_code r = 401 \<or> status_code r = 403
                then Msg ''Todoist API Error: {} (Status: {}) - Check your Todoist API Key.''
                       [S (body_text r), N (status_code r)]
                else Msg ''Todoist API Error: {} (Status: {})'' [S (body_text r), N (status_code r)])
      else Msg ''Unexpected error creating Todoist task: {}'' [E e])"

text \<open>
  \<open>create_todoist_task\<close> (lines 257 to 308): the pair of the created task and the
  error message (\<open>JNull\<close> is Python's \<open>None\<close>), or the exception raised before the
  \<open>try\<close> is entered.
\<close>

definition create_todoist_task ::
  "world \<Rightarrow> json \<Rightarrow> app \<Rightarrow> (exn + json \<times> msg option) \<times> app" where
  "create_todoist_task w assignment s =
     (if todoist_api_key s = []
      then (Inr (JNull, Some (Msg ''Todoist API Key missing.'' [])),
            log (Msg ''Todoist API Key missing.'' []) s)
      else
        (case task_request w assignment s of
           (Inl e, s0) \<Rightarrow> (Inl e, s0)
         | (Inr req, s0) \<Rightarrow>
             (case post_task w req assignment s0 of
                (Inr task, s1) \<Rightarrow> (Inr (task, None), s1)
              | (Inl e, s1) \<Rightarrow>
                  (Inr (JNull, Some (todoist_error e)), log (todoist_error e) s1))))"

text \<open>
  The loop of \<open>run_sync_process\<close> over the collected assignments (lines 439 to 447),
  with the two counters; half a second of sleep follows every item.
\<close>

fun publish_loop ::
  "world \<Rightarrow> nat \<Rightarrow> nat \<Rightarrow> json list \<Rightarrow> app \<Rightarrow> nat \<times> nat \<Rightarrow> (exn + nat \<times> nat) \<times> app" where
  "publish_loop w total_assignments i [] s counts = (Inr counts, s)"
| "publish_loop w total_assignments i (assignment # rest) s (synced_count, error_count) =
     (case dict_get assignment ''name'' JNull of
        Inl e \<Rightarrow> (Inl e, s)
      | Inr name \<Rightarrow>
     (case dict_get assignment ''course_name'' JNull of
        Inl e \<Rightarrow> (Inl e, s)
      | Inr course_name \<Rightarrow>
     (case create_todoist_task w assignment
             (log (Msg ''Processing assignment {}/{}: {} [{}]''
                [N (int i + 1), N (int total_assignments), V name, V course_name]) s) of
        (Inl e, s1) \<Rightarrow> (Inl e, s1)
      | (Inr (task, Some error), s1) \<Rightarrow>
          publish_loop w total_assignments (Suc i) rest
            (emit (Sleep 500) (log (Msg ''  -> Failed to create task: {}'' [M error]) s1))
            (synced_count, Suc error_count)
      | (Inr (task, None), s1) \<Rightarrow>
          publish_loop w total_assignments (Suc i) rest (emit (Sleep 500) s1)
            (if truthy task then Suc synced_count else synced_count, error_count))))"

section \<open>The selection file\<close>

text \<open>\<open>str(x).isdigit()\<close> and \<open>int(x)\<close> for an element of the stored list.\<close>

fun str_isdigit :: "json \<Rightarrow> bool" where
  "str_isdigit (JStr t) = isdigit t"
| "str_isdigit (JInt i) = isdigit (str_int i)"
| "str_isdigit x = False"

fun py_int :: "json \<Rightarrow> exn + int" where
  "py_int (JStr t) = int_of_str t"
| "py_int (JInt i) = Inr i"
| "py_int (JBool b) = Inr (if b then 1 else 0)"
| "py_int x = Inl TypeError"

text \<open>\<open>{int(id_str) for id_str in selected_ids if str(id_str).isdigit()}\<close> (line 84)\<close>

fun load_ids :: "json list \<Rightarrow> exn + int list" where
  "load_ids [] = Inr []"
| "load_ids (id_str # rest) =
     (if str_isdigit id_str
      then (case py_int id_str of
              Inl e \<Rightarrow> Inl e
            | Inr i \<Rightarrow> (case load_ids rest of Inl e \<Rightarrow> Inl e | Inr ids \<Rightarrow> Inr (i # ids)))
      else load_ids rest)"

text \<open>
  \<open>load_course_selection\<close> (lines 76 to 89): the set of identifiers, or the exception
  the \<open>except\<close> clause does not name.
\<close>

definition load_course_selection :: "app \<Rightarrow> (exn + int set) \<times> app" where
  "load_course_selection s =
     (case config_file s of
        NoFile \<Rightarrow> (Inr {}, log (Msg ''{} not found. No courses pre-selected.'' [S ''config.json'']) s)
      | Unreadable \<Rightarrow>
          (Inr {}, log (Msg ''Error loading course selection from {}: {}''
             [S ''config.json'', E IOError]) s)
      | NotJson \<Rightarrow>
          (Inr {}, log (Msg ''Error loading course selection from {}: {}''
             [S ''config.json'', E JSONDecodeError]) s)
      | JsonFile config_data \<Rightarrow>
     (case dict_get config_data ''selected_course_ids'' (JArr []) of
        Inl e \<Rightarrow> (Inl e, s)
      | Inr selected_ids \<Rightarrow>
     (case py_iter selected_ids of
        Inl e \<Rightarrow> (Inl e, s)
      | Inr items \<Rightarrow>
     (case load_ids items of
        Inr ids \<Rightarrow> (Inr (set ids), s)
      | Inl e \<Rightarrow>
          if e = ValueError
          then (Inr {}, log (Msg ''Error loading course selection from {}: {}''
                  [S ''config.json'', E e]) s)
          else (Inl e, s)))))"

text \<open>
  \<open>save_course_selection\<close> (lines 91 to 101). A Python set is given as the list of its
  members in the order the set yields them.
\<close>

definition selection_document :: "key list \<Rightarrow> json" where
  "selection_document selected_ids =
     JObj [(''selected_course_ids'', JArr (map (\<lambda>id_int. JStr (py_str id_int)) selected_ids))]"

definition save_course_selection :: "world \<Rightarrow> key list \<Rightarrow> app \<Rightarrow> app" where
  "save_course_selection w selected_ids s =
     (if write_fails w
      then emit (Dialog ShowError ''Config Error''
                   (Msg ''Could not save course selection:\<newline>{}'' [E IOError]))
             (log (Msg ''Error saving course selection to {}: {}'' [S ''config.json'', E IOError]) s)
      else log (Msg ''Saved course selection to {}.'' [S ''config.json''])
             ((emit (WriteConfig (selection_document selected_ids)) s)
                \<lparr>config_file := JsonFile (selection_document selected_ids)\<rparr>))"

text \<open>\<open>get_selected_courses_from_gui\<close> (lines 103 to 109)\<close>

definition get_selected_courses_from_gui :: "app \<Rightarrow> key list" where
  "get_selected_courses_from_gui s = map fst (filter snd (course_checkbox_vars s))"

section \<open>The run controller\<close>

text \<open>
  Both operations return nothing; the model returns the name of the \<open>return\<close>
  statement that ended the call.
\<close>

datatype fetch_exit = AlreadyFetching | NotConfigured | FetchError | NoCourses | Displayed

datatype sync_exit = AlreadySyncing | MissingCredentials | NoCoursesSelected | CollectError
  | NothingToSync | Finished nat nat

subsection \<open>Fetching the courses\<close>

text \<open>\<open>x[k]\<close> for a string \<open>k\<close>, and the hashing a set or dictionary does to a key.\<close>

fun dict_item :: "json \<Rightarrow> string \<Rightarrow> exn + json" where
  "dict_item (JObj kvs) k = (case map_of kvs k of None \<Rightarrow> Inl KeyError | Some v \<Rightarrow> Inr v)"
| "dict_item x k = Inl TypeError"

fun to_key :: "json \<Rightarrow> exn + key" where
  "to_key JNull = Inr KNone"
| "to_key (JBool b) = Inr (KBool b)"
| "to_key (JInt i) = Inr (KInt i)"
| "to_key (JStr t) = Inr (KStr t)"
| "to_key x = Inl TypeError"

text \<open>Python's \<open>True\<close> and \<open>False\<close> are the keys \<open>1\<close> and \<open>0\<close>.\<close>

fun key_norm :: "key \<Rightarrow> key" where
  "key_norm (KBool b) = KInt (if b then 1 else 0)"
| "key_norm k = k"

fun key_in :: "key \<Rightarrow> int set \<Rightarrow> bool" where
  "key_in (KInt i) A = (i \<in> A)"
| "key_in (KBool b) A = ((if b then 1 else 0) \<in> A)"
| "key_in k A = False"

text \<open>\<open>self.course_checkbox_vars[course_id] = var\<close>\<close>

fun var_store :: "key \<Rightarrow> bool \<Rightarrow> (key \<times> bool) list \<Rightarrow> (key \<times> bool) list" where
  "var_store k v [] = [(k, v)]"
| "var_store k v ((k', v') # kvs) =
     (if key_norm k' = key_norm k then (k', v) # kvs else (k', v') # var_store k v kvs)"

text \<open>
  The loop that fills the check boxes (lines 348 to 372); the widgets themselves are
  left out.
\<close>

fun display_courses :: "int set \<Rightarrow> json list \<Rightarrow> app \<Rightarrow> (exn + unit) \<times> app" where
  "display_courses previously_selected_ids [] s = (Inr (), s)"
| "display_courses previously_selected_ids (course # rest) s =
     (case dict_item course ''id'' of
        Inl e \<Rightarrow> (Inl e, s)
      | Inr i \<Rightarrow>
     (case to_key i of
        Inl e \<Rightarrow> (Inl e, s)
      | Inr course_id \<Rightarrow>
          display_courses previously_selected_ids rest
            (s\<lparr>course_checkbox_vars :=
                 var_store course_id (key_in course_id previously_selected_ids)
                   (course_checkbox_vars s)\<rparr>)))"

text \<open>\<open>finish_fetch_courses\<close> (lines 378 to 382)\<close>

definition finish_fetch_courses :: "app \<Rightarrow> app" where
  "finish_fetch_courses s =
     s\<lparr>is_fetching_courses := False, fetch_courses_button := (''Fetch Courses'', ''normal'')\<rparr>"

text \<open>\<open>fetch_and_display_courses\<close> (lines 311 to 376)\<close>

definition fetch_and_display_courses :: "world \<Rightarrow> app \<Rightarrow> (exn + fetch_exit) \<times> app" where
  "fetch_and_display_courses w s =
     (if is_fetching_courses s
      then (Inr AlreadyFetching, log (Msg ''Already fetching courses.'' []) s)
      else if canvas_url s = [] \<or> canvas_api_key s = []
      then (Inr NotConfigured,
            emit (Dialog ShowError ''Error''
                    (Msg ''Canvas URL and API Key must be configured first.'' [])) s)
      else
     (case get_canvas_courses w
             (log (Msg ''Fetching courses to display...'' [])
                (s\<lparr>is_fetching_courses := True,
                   fetch_courses_button := (''Fetching...'', ''disabled'')\<rparr>)) of
        (Inl e, s1) \<Rightarrow> (Inl e, s1)
      | (Inr (courses, Some error), s1) \<Rightarrow>
          (Inr FetchError,
           finish_fetch_courses
             (log (Msg ''Course fetch failed: {}'' [M error])
                (emit (Dialog ShowError ''Fetch Error''
                         (Msg ''Failed to fetch courses from Canvas:\<newline>{}'' [M error])) s1)))
      | (Inr (courses, None), s1) \<Rightarrow>
     (case load_course_selection (s1\<lparr>course_checkbox_vars := []\<rparr>) of
        (Inl e, s2) \<Rightarrow> (Inl e, s2)
      | (Inr previously_selected_ids, s2) \<Rightarrow>
          if (case courses of None \<Rightarrow> True | Some cs \<Rightarrow> cs = [])
          then (Inr NoCourses,
                finish_fetch_courses
                  (log (Msg ''No active courses found.'' [])
                     (log (Msg ''Loaded {} previously selected course IDs.''
                        [N (int (card previously_selected_ids))]) s2)))
          else
     (case display_courses previously_selected_ids (the courses)
             (log (Msg ''Displaying {} courses...'' [N (int (length (the courses)))])
                (log (Msg ''Loaded {} previously selected course IDs.''
                   [N (int (card previously_selected_ids))]) s2)) of
        (Inl e, s3) \<Rightarrow> (Inl e, s3)
      | (Inr u, s3) \<Rightarrow>
          (Inr Displayed,
           finish_fetch_courses
             (log (Msg ''Finished displaying courses. Select courses to sync.'' []) s3))))))"

subsection \<open>Synchronising\<close>

text \<open>\<open>finish_sync\<close> (lines 460 to 464)\<close>

definition finish_sync :: "app \<Rightarrow> app" where
  "finish_sync s = s\<lparr>is_syncing := False, sync_button := (''Sync Now'', ''normal'')\<rparr>"

text \<open>The closing report (lines 450 to 456).\<close>

definition sync_report :: "nat \<Rightarrow> nat \<Rightarrow> app \<Rightarrow> app" where
  "sync_report synced_count error_count s =
     (if error_count > 0
      then emit (Dialog ShowWarning ''Sync Complete with Errors''
                   (Msg ''Sync finished.\<newline>Successfully created: {} tasks.\<newline>Failed: {} tasks.\<newline>Check log for details.''
                      [N (int synced_count), N (int error_count)]))
             (log (Msg ''Failed to sync: {} assignments.'' [N (int error_count)])
                (log (Msg ''Successfully synced: {} assignments from selected courses.''
                   [N (int synced_count)])
                   (log (Msg ''--- Sync Process Finished ---'' []) s)))
      else emit (Dialog ShowInfo ''Sync Complete''
                   (Msg ''Sync finished successfully.\<newline>Created {} tasks in Todoist from selected courses.''
                      [N (int synced_count)]))
             (log (Msg ''Successfully synced: {} assignments from selected courses.''
                [N (int synced_count)])
                (log (Msg ''--- Sync Process Finished ---'' []) s)))"

text \<open>\<open>run_sync_process\<close> (lines 394 to 458)\<close>

definition run_sync_process :: "world \<Rightarrow> app \<Rightarrow> (exn + sync_exit) \<times> app" where
  "run_sync_process w s =
     (if is_syncing s
      then (Inr AlreadySyncing, log (Msg ''Sync already in progress.'' []) s)
      else if canvas_url s = [] \<or> canvas_api_key s = [] \<or> todoist_api_key s = []
      then (Inr MissingCredentials,
            log (Msg ''Sync aborted: Missing credentials.'' [])
              (emit (Dialog ShowError ''Error''
                       (Msg ''Canvas URL, Canvas API Key, and Todoist API Key must be configured and saved.'' []))
                 s))
      else if get_selected_courses_from_gui s = []
      then (Inr NoCoursesSelected,
            log (Msg ''Sync aborted: No courses selected.'' [])
              (emit (Dialog ShowWarning ''No Courses Selected''
                       (Msg ''Please select at least one course in the 'Courses' tab before syncing.'' []))
                 s))
      else
     (case get_canvas_assignments_for_courses w (get_selected_courses_from_gui s)
             (log (Msg ''--- Starting Sync Process for {} selected courses ---''
                [N (int (length (get_selected_courses_from_gui s)))])
                ((save_course_selection w (get_selected_courses_from_gui s) s)
                   \<lparr>is_syncing := True, sync_button := (''Syncing...'', ''disabled'')\<rparr>)) of
        ((assignments, Some error), s1) \<Rightarrow>
          (Inr CollectError,
           finish_sync
             (emit (Dialog ShowError ''Sync Error''
                      (Msg ''Failed to get assignments from Canvas:\<newline>{}'' [M error])) s1))
      | ((assignments, None), s1) \<Rightarrow>
          if (case assignments of None \<Rightarrow> True | Some xs \<Rightarrow> xs = [])
          then (Inr NothingToSync,
                finish_sync
                  (emit (Dialog ShowInfo ''Sync Complete''
                           (Msg ''No new assignments found in selected courses to sync.'' []))
                     (log (Msg ''No upcoming, unsubmitted assignments found in selected Canvas courses.'' [])
                        s1)))
          else
     (case publish_loop w (length (the assignments)) 0 (the assignments)
             (log (Msg ''Note: Duplicate checking relies on Todoist idempotency key.'' []) s1)
             (0, 0) of
        (Inl e, s2) \<Rightarrow> (Inl e, s2)
      | (Inr (synced_count, error_count), s2) \<Rightarrow>
          (Inr (Finished synced_count error_count),
           finish_sync (sync_report synced_count error_count s2)))))"

section \<open>Example runs\<close>

text \<open>
  The application as \<open>__init__\<close> leaves it once the three credentials are loaded, a
  server that answers the n-th request with the n-th reply of a script (and not at all
  once the script is used up), and a world around it.
\<close>

definition app0 :: app where
  "app0 = \<lparr>canvas_url = ''https://canvas.example'', canvas_api_key = ''ck'',
     todoist_api_key = ''tk'', is_syncing = False, is_fetching_courses = False,
     course_checkbox_vars = [], sync_button = (''Sync Now'', ''normal''),
     fetch_courses_button = (''Fetch Courses'', ''normal''), config_file = NoFile,
     trace = [], sent = 0\<rparr>"

definition ok :: "json \<Rightarrow> reply" where
  "ok j = Reply \<lparr>status_code = 200, headers = [], json_body = Some j, body_text = []\<rparr>"

definition refused :: "int \<Rightarrow> (string \<times> string) list \<Rightarrow> reply" where
  "refused code hdrs = Reply \<lparr>status_code = code, headers = hdrs, json_body = None, body_text = []\<rparr>"

definition scripted :: "reply list \<Rightarrow> nat \<Rightarrow> request \<Rightarrow> reply" where
  "scripted rs n r = (if n < length rs then rs ! n else NoReply)"

definition world0 :: "reply list \<Rightarrow> world" where
  "world0 rs = \<lparr>http = scripted rs,
     py_hash = (\<lambda>x. case x of JInt i \<Rightarrow> i | JStr t \<Rightarrow> int (length t) | _ \<Rightarrow> 0),
     isoformat_day = (\<lambda>t. if 10 \<le> length t then Some (take 10 t) else None),
     write_fails = False, max_sleep = 9223372036\<rparr>"

text \<open>
  Two courses, 101 and 102. Course 101 has three upcoming assignments, the second one
  handed in; course 102 has none.
\<close>

definition hw :: "string \<Rightarrow> json \<Rightarrow> json" where
  "hw name submission = JObj [(''name'', JStr name), (''submission'', submission)]"

definition algebra_replies :: "reply list" where
  "algebra_replies =
     [ok (JObj [(''name'', JStr ''Algebra''), (''course_code'', JStr ''MATH101'')]),
      ok (JArr [hw ''HW1'' JNull,
                hw ''HW2'' (JObj [(''submitted_at'', JStr ''2026-01-05T10:00:00Z'')]),
                hw ''HW3'' (JObj [(''submitted_at'', JNull)])]),
      ok (JObj [(''name'', JStr ''Biology'')]),
      ok (JArr [])]"

text \<open>
  The same two courses ticked in the window, and a Todoist that creates each of the two
  tasks it is asked for.
\<close>

definition app1 :: app where
  "app1 = app0\<lparr>course_checkbox_vars := [(KInt 101, True), (KInt 102, True)]\<rparr>"

definition sync_replies :: "reply list" where
  "sync_replies = algebra_replies
     @ [ok (JObj [(''id'', JStr ''7001'')]), ok (JObj [(''id'', JStr ''7002'')])]"


text \<open>
  An assignment with a detail URL, the same assignment under another name, and a Todoist
  that answers the first request with status 429 and a \<open>Retry-After\<close> of three seconds,
  the second with the created task.
\<close>

definition essay :: json where
  "essay = JObj [(''id'', JInt 55), (''name'', JStr ''Essay''),
     (''html_url'', JStr ''https://canvas.example/a/55''), (''course_name'', JStr ''ENG1'')]"

definition essay_renamed :: json where
  "essay_renamed = JObj [(''id'', JInt 55), (''name'', JStr ''Essay (draft)''),
     (''html_url'', JStr ''https://canvas.example/a/55''), (''course_name'', JStr ''ENG1'')]"

definition busy_replies :: "reply list" where
  "busy_replies = [refused 429 [(''Retry-After'', ''3'')], ok (JObj [(''id'', JStr ''7001'')])]"



section \<open>Predicates of the statements\<close>

text \<open>
  The \<open>submitted_at\<close> the submission sub-object of an assignment carries, if it carries
  one; and the words of the specification: it carries one that is not null. The
  specification has the value be a submitted timestamp or null; a timestamp is a string
  that is not empty.
\<close>

definition stamp_of :: "json \<Rightarrow> json option" where
  "stamp_of a =
     (case a of
        JObj kvs \<Rightarrow>
          (case map_of kvs ''submission'' of
             Some (JObj sub) \<Rightarrow> map_of sub ''submitted_at''
           | _ \<Rightarrow> None)
      | _ \<Rightarrow> None)"

definition carries_submitted_at :: "json \<Rightarrow> bool" where
  "carries_submitted_at a = (case stamp_of a of None \<Rightarrow> False | Some t \<Rightarrow> t \<noteq> JNull)"

definition timestamp_or_null :: "json \<Rightarrow> bool" where
  "timestamp_or_null t = (case t of JNull \<Rightarrow> True | JStr x \<Rightarrow> x \<noteq> [] | _ \<Rightarrow> False)"

text \<open>
  A fetch fails when there is no reply, when the status is one \<open>raise_for_status\<close>
  raises for, or when the body is not JSON; otherwise it gives the JSON of the body.
\<close>

fun failed_reply :: "reply \<Rightarrow> bool" where
  "failed_reply NoReply = True"
| "failed_reply (Reply r) = (400 \<le> status_code r \<and> status_code r < 600 \<or> json_body r = None)"

fun reply_json :: "reply \<Rightarrow> json option" where
  "reply_json NoReply = None"
| "reply_json (Reply r) = (if 400 \<le> status_code r \<and> status_code r < 600 then None else json_body r)"

text \<open>
  What the collector is to return, as a function of the replies alone. An assignment is
  kept when the test of line 235 comes out falsy for it; \<open>labelled\<close> is the assignment
  with the course label under \<open>course_name\<close>; the assignments of a listing are read up to
  the first one that has no \<open>get\<close>, or whose submission has none.
\<close>

definition kept :: "json \<Rightarrow> bool" where
  "kept assign = (case submitted_at assign of Inl e \<Rightarrow> False | Inr t \<Rightarrow> \<not> truthy t)"

definition labelled :: "json \<Rightarrow> json \<Rightarrow> json" where
  "labelled course_name assign =
     (case assign of JObj kvs \<Rightarrow> JObj (AList.update ''course_name'' course_name kvs) | _ \<Rightarrow> assign)"

definition readable :: "json list \<Rightarrow> json list" where
  "readable items = takeWhile (\<lambda>a. case submitted_at a of Inl e \<Rightarrow> False | Inr t \<Rightarrow> True) items"

text \<open>
  The part of one course, from the reply to its label request and the reply to its
  listing request: the assignments of the listing that are kept, in the order of the
  listing, each with the label resolved from the label reply. A course whose label or
  listing cannot be had has no part.
\<close>

definition course_part :: "reply \<Rightarrow> reply \<Rightarrow> key \<Rightarrow> json list" where
  "course_part label_reply listing_reply course_id =
     (case reply_json label_reply of
        None \<Rightarrow> []
      | Some course_data \<Rightarrow>
     (case course_label course_data course_id of
        Inl e \<Rightarrow> []
      | Inr course_name \<Rightarrow>
     (case reply_json listing_reply of
        None \<Rightarrow> []
      | Some assignments \<Rightarrow>
     (case py_len assignments of
        Inl e \<Rightarrow> []
      | Inr n \<Rightarrow>
     (case py_iter assignments of
        Inl e \<Rightarrow> []
      | Inr items \<Rightarrow> map (labelled course_name) (filter kept (readable items)))))))"

text \<open>A course takes two requests, or one when its label cannot be had.\<close>

definition requests_made :: "reply \<Rightarrow> key \<Rightarrow> nat" where
  "requests_made label_reply course_id =
     (case reply_json label_reply of
        None \<Rightarrow> 1
      | Some course_data \<Rightarrow> (case course_label course_data course_id of Inl e \<Rightarrow> 1 | Inr l \<Rightarrow> 2))"

text \<open>
  The parts of the courses, in the order of the courses; \<open>n\<close> is the number of requests
  sent before, so that the label request of the first course is the \<open>n\<close>-th request and
  its listing request the next.
\<close>

fun collect :: "world \<Rightarrow> string \<Rightarrow> (string \<times> string) list \<Rightarrow> nat \<Rightarrow> key list \<Rightarrow> json list" where
  "collect w canvas_base hdrs n [] = []"
| "collect w canvas_base hdrs n (course_id # rest) =
     course_part (http w n (GET (course_info_url canvas_base course_id) hdrs 10))
        (http w (Suc n) (GET (assignments_url canvas_base course_id) hdrs 20)) course_id
     @ collect w canvas_base hdrs
         (n + requests_made (http w n (GET (course_info_url canvas_base course_id) hdrs 10)) course_id)
         rest"

text \<open>An assignment with something else under \<open>submission\<close>.\<close>

definition resubmit :: "(json \<Rightarrow> json) \<Rightarrow> json \<Rightarrow> json" where
  "resubmit g a = (case a of JObj kvs \<Rightarrow> JObj (AList.update ''submission'' (g a) kvs) | _ \<Rightarrow> a)"

text \<open>
  The requests among the events a call has added to the trace, and the value a request
  carries in its \<open>X-Request-Id\<close> header.
\<close>

fun requests_of :: "event list \<Rightarrow> request list" where
  "requests_of [] = []"
| "requests_of (Request r # es) = r # requests_of es"
| "requests_of (e # es) = requests_of es"

definition new_events :: "app \<Rightarrow> app \<Rightarrow> event list" where
  "new_events s s' = drop (length (trace s)) (trace s')"

definition new_requests :: "app \<Rightarrow> app \<Rightarrow> request list" where
  "new_requests s s' = requests_of (new_events s s')"

fun request_id_of :: "request \<Rightarrow> string option" where
  "request_id_of (POST url hdrs data timeout) = map_of hdrs ''X-Request-Id''"
| "request_id_of (GET url hdrs timeout) = None"

text \<open>
  The state \<open>s'\<close> continues the trace of \<open>s\<close>, with requests of \<open>Q\<close> only, and has the
  selection file as \<open>s\<close> has it.
\<close>

definition sends_only :: "app \<Rightarrow> app \<Rightarrow> request set \<Rightarrow> bool" where
  "sends_only s s' Q =
     ((\<exists>evs. trace s' = trace s @ evs \<and> set (requests_of evs) \<subseteq> Q)
      \<and> config_file s' = config_file s)"





section \<open>Properties of the assignment collector\<close>

text \<open>
  C8. With both Canvas credentials present and no course identifier given,
  \<open>get_canvas_assignments_for_courses\<close> returns the empty list and no error. The only
  effect is one log line: no request is recorded and the request counter stands.
\<close>

theorem empty_selection_is_no_error:
  assumes "canvas_url s \<noteq> []" and "canvas_api_key s \<noteq> []"
  shows "get_canvas_assignments_for_courses w [] s =
           ((Some [], None), s\<lparr>trace := trace s @ [Log (Msg ''No courses selected for sync.'' [])]\<rparr>)"
  using assms by (simp add: get_canvas_assignments_for_courses_def log_def emit_def)

theorem empty_selection_is_no_error_witness:
  "canvas_url app0 \<noteq> [] \<and> canvas_api_key app0 \<noteq> [] \<and>
   get_canvas_assignments_for_courses (world0 []) [] app0 =
     ((Some [], None), app0\<lparr>trace := [Log (Msg ''No courses selected for sync.'' [])]\<rparr>) \<and>
   sent (snd (get_canvas_assignments_for_courses (world0 []) [] app0)) = 0"
proof -
  have a: "canvas_url app0 \<noteq> []" and b: "canvas_api_key app0 \<noteq> []"
    by (simp_all add: app0_def)
  show ?thesis
    using empty_selection_is_no_error [OF a b, of "world0 []"] a b
    by (simp add: app0_def)
qed


lemma sent_log [simp]: "sent (log m s) = sent s"
  by (simp add: log_def emit_def)

lemma failed_reply_iff: "failed_reply rep = (reply_json rep = None)"
  by (cases rep) auto

lemma get_json_reply:
  "get_json w url hdrs t s = (r, s1) \<Longrightarrow>
     sent s1 = Suc (sent s) \<and>
     (case reply_json (http w (sent s) (GET url hdrs t)) of
        None \<Rightarrow> \<exists>e. r = Inl e
      | Some j \<Rightarrow> r = Inr j)"
  unfolding get_json_def send_def response_json_def raise_for_status_def
  by (cases "http w (sent s) (GET url hdrs t)")
     (auto simp: emit_def split: if_splits option.splits)

lemma submitted_at_dict:
  "submitted_at a = Inr t \<Longrightarrow> \<exists>kvs. a = JObj kvs"
  by (cases a) (simp_all add: submitted_at_def)

lemma dict_set_labelled:
  "submitted_at a = Inr t \<Longrightarrow> dict_set a ''course_name'' cn = Inr (labelled cn a)"
  by (cases a) (simp_all add: submitted_at_def labelled_def)

lemma submitted_at_labelled: "submitted_at (labelled cn a) = submitted_at a"
  by (cases a) (simp_all add: submitted_at_def labelled_def update_conv')

lemma stamp_of_labelled: "stamp_of (labelled cn a) = stamp_of a"
  by (cases a) (simp_all add: stamp_of_def labelled_def update_conv')

lemma stamp_of_submitted_at:
  "stamp_of a = Some t \<Longrightarrow> submitted_at a = Inr t"
  by (cases a) (auto simp: stamp_of_def submitted_at_def split: option.splits json.splits)

lemma scan_assignments_exact:
  "scan_assignments cn items s acc = (r, s', acc') \<Longrightarrow>
     acc' = acc @ map (labelled cn) (filter kept (readable items)) \<and> sent s' = sent s"
proof (induction items arbitrary: s acc)
  case Nil
  then show ?case by (simp add: readable_def)
next
  case (Cons x xs)
  show ?case
  proof (cases "submitted_at x")
    case (Inl e)
    with Cons.prems show ?thesis by (simp add: readable_def)
  next
    case (Inr t)
    from submitted_at_dict[OF Inr] obtain kvs where x: "x = JObj kvs" by blast
    have rd: "readable (x # xs) = x # readable xs"
      using Inr by (simp add: readable_def)
    show ?thesis
    proof (cases "truthy t")
      case True
      have run: "scan_assignments cn xs
             (log (Msg ''  Skipping already submitted assignment: {}''
                [V (case map_of kvs ''name'' of None \<Rightarrow> JNull | Some v \<Rightarrow> v)]) s) acc = (r, s', acc')"
        using Cons.prems Inr True x by simp
      have "\<not> kept x" using Inr True by (simp add: kept_def)
      with Cons.IH[OF run] rd show ?thesis by simp
    next
      case False
      have run: "scan_assignments cn xs s (acc @ [labelled cn x]) = (r, s', acc')"
        using Cons.prems Inr False dict_set_labelled[OF Inr, of cn] by simp
      have "kept x" using Inr False by (simp add: kept_def)
      with Cons.IH[OF run] rd show ?thesis by simp
    qed
  qed
qed

lemma fetch_course_exact:
  assumes "fetch_course w base hdrs cid s acc = (r, s', acc')"
  shows "acc' = acc @ course_part (http w (sent s) (GET (course_info_url base cid) hdrs 10))
                    (http w (Suc (sent s)) (GET (assignments_url base cid) hdrs 20)) cid
       \<and> sent s' = sent s + requests_made (http w (sent s) (GET (course_info_url base cid) hdrs 10)) cid"
proof (cases "get_json w (course_info_url base cid) hdrs 10 s")
  case first: (Pair r1 s1)
  note g1 = get_json_reply[OF first]
  show ?thesis
  proof (cases r1)
    case (Inl e)
    with first assms g1 show ?thesis
      by (auto simp: fetch_course_def course_part_def requests_made_def split: option.splits)
  next
    case r1: (Inr course_data)
    with g1 have rj1: "reply_json (http w (sent s) (GET (course_info_url base cid) hdrs 10)) = Some course_data"
      and s1: "sent s1 = Suc (sent s)"
      by (auto split: option.splits)
    show ?thesis
    proof (cases "course_label course_data cid")
      case (Inl e)
      with first r1 assms rj1 s1 show ?thesis
        by (simp add: fetch_course_def course_part_def requests_made_def)
    next
      case label: (Inr label)
      show ?thesis
      proof (cases "get_json w (assignments_url base cid) hdrs 20 s1")
        case second: (Pair r2 s2)
        note g2 = get_json_reply[OF second]
        show ?thesis
        proof (cases r2)
          case (Inl e)
          with g2 have "reply_json (http w (Suc (sent s)) (GET (assignments_url base cid) hdrs 20)) = None"
            and "sent s2 = Suc (Suc (sent s))"
            by (auto simp: s1 split: option.splits)
          with first r1 label second Inl assms rj1 show ?thesis
            by (simp add: fetch_course_def course_part_def requests_made_def)
        next
          case r2: (Inr listing)
          with g2 have rj2: "reply_json (http w (Suc (sent s)) (GET (assignments_url base cid) hdrs 20)) = Some listing"
            and s2: "sent s2 = Suc (Suc (sent s))"
            by (auto simp: s1 split: option.splits)
          show ?thesis
          proof (cases "py_len listing")
            case (Inl e)
            with first r1 label second r2 assms rj1 rj2 s2 show ?thesis
              by (simp add: fetch_course_def course_part_def requests_made_def)
          next
            case len: (Inr n)
            show ?thesis
            proof (cases "py_iter listing")
              case (Inl e)
              with first r1 label second r2 len assms rj1 rj2 s2 show ?thesis
                by (simp add: fetch_course_def course_part_def requests_made_def)
            next
              case items: (Inr items)
              have "scan_assignments label items
                      (log (Msg ''  Found {} upcoming assignments for {}.'' [N (int n), V label]) s2)
                      acc = (r, s', acc')"
                using first r1 label second r2 len items assms by (simp add: fetch_course_def)
              from scan_assignments_exact[OF this] rj1 rj2 s2 label len items show ?thesis
                by (simp add: course_part_def requests_made_def)
            qed
          qed
        qed
      qed
    qed
  qed
qed

lemma course_loop_exact:
  "course_loop w base hdrs tot i cids s acc = (s', acc') \<Longrightarrow>
     acc' = acc @ collect w base hdrs (sent s) cids"
proof (induction cids arbitrary: i s acc)
  case Nil
  then show ?case by simp
next
  case (Cons c rest)
  let ?s0 = "log (Msg ''Fetching assignments for selected course {}/{} (ID: {})...''
                [N (int i + 1), N (int tot), K c]) s"
  obtain r s1 acc1 where step: "fetch_course w base hdrs c ?s0 acc = (r, s1, acc1)"
    by (cases "fetch_course w base hdrs c ?s0 acc") auto
  from fetch_course_exact[OF step]
  have acc1: "acc1 = acc @ course_part (http w (sent s) (GET (course_info_url base c) hdrs 10))
                    (http w (Suc (sent s)) (GET (assignments_url base c) hdrs 20)) c"
    and s1: "sent s1 = sent s + requests_made (http w (sent s) (GET (course_info_url base c) hdrs 10)) c"
    by simp_all
  define s2 where "s2 = (case r of None \<Rightarrow> s1 | Some e \<Rightarrow> log (course_error c e) s1)"
  have s2: "sent s2 = sent s1" by (cases r) (simp_all add: s2_def)
  from Cons.prems step have rest: "course_loop w base hdrs tot (Suc i) rest s2 acc1 = (s', acc')"
    by (cases r) (simp_all add: s2_def)
  from Cons.IH[OF rest] acc1 s1 s2 show ?case by simp
qed

lemma collector_exact:
  assumes "get_canvas_assignments_for_courses w course_ids s = ((Some out, err), s')"
  shows "out = collect w (with_slash (canvas_url s)) (bearer (canvas_api_key s)) (sent s) course_ids"
proof (cases "course_ids = []")
  case True
  with assms show ?thesis
    by (auto simp: get_canvas_assignments_for_courses_def split: if_splits)
next
  case False
  with assms obtain s1 where
    "course_loop w (with_slash (canvas_url s)) (bearer (canvas_api_key s))
       (length course_ids) 0 course_ids s [] = (s1, out)"
    by (auto simp: get_canvas_assignments_for_courses_def split: if_splits prod.splits)
  from course_loop_exact[OF this] show ?thesis by simp
qed

lemma course_part_kept:
  "a \<in> set (course_part r1 r2 cid) \<Longrightarrow> kept a"
  by (auto simp: course_part_def kept_def submitted_at_labelled
      split: option.splits sum.splits)

lemma collect_kept:
  "a \<in> set (collect w base hdrs n cids) \<Longrightarrow> kept a"
  by (induction cids arbitrary: n) (auto dest: course_part_kept)

lemma kept_stamp:
  "kept a \<Longrightarrow> stamp_of a = Some t \<Longrightarrow> \<not> truthy t"
  by (auto simp: kept_def dest: stamp_of_submitted_at)

lemma timestamp_or_null_truthy:
  "timestamp_or_null t \<Longrightarrow> \<not> truthy t \<Longrightarrow> t = JNull"
  by (cases t) (simp_all add: timestamp_or_null_def)

lemma map_of_update_other:
  "k' \<noteq> k \<Longrightarrow> map_of (AList.update k v al) k' = map_of al k'"
  by (simp add: update_conv')

lemma dict_get_ignores_submission:
  "k \<noteq> ''submission'' \<Longrightarrow>
     dict_get (JObj (AList.update ''submission'' v kvs)) k d = dict_get (JObj kvs) k d"
  by (simp add: map_of_update_other)

lemma task_request_ignores_submission:
  "task_request w (JObj (AList.update ''submission'' v kvs)) u = task_request w (JObj kvs) u"
  unfolding task_request_def hash_input_def due_string_def
  by (simp only: dict_get_ignores_submission list.inject char.inject simp_thms
      cong: sum.case_cong prod.case_cong)

lemma post_task_ignores_submission:
  "post_task w req (JObj (AList.update ''submission'' v kvs)) u = post_task w req (JObj kvs) u"
  unfolding post_task_def
  by (simp only: dict_get_ignores_submission list.inject char.inject simp_thms
      cong: sum.case_cong prod.case_cong)

lemma create_todoist_task_ignores_submission:
  "create_todoist_task w (JObj (AList.update ''submission'' v kvs)) u
     = create_todoist_task w (JObj kvs) u"
  unfolding create_todoist_task_def
  by (simp only: task_request_ignores_submission post_task_ignores_submission)

lemma publish_loop_ignores_submission:
  "publish_loop w tot i (map (resubmit g) xs) s counts = publish_loop w tot i xs s counts"
proof (induction xs arbitrary: i s counts)
  case Nil
  show ?case by simp
next
  case (Cons x xs)
  obtain sc ec where counts: "counts = (sc, ec)" by (cases counts)
  show ?case
  proof (cases "\<exists>kvs. x = JObj kvs")
    case False
    then have "resubmit g x = x" by (cases x) (simp_all add: resubmit_def)
    moreover from False have "dict_get x ''name'' JNull = Inl AttributeError" by (cases x) simp_all
    ultimately show ?thesis by (simp add: counts)
  next
    case True
    then obtain kvs where x: "x = JObj kvs" by blast
    have r: "resubmit g x = JObj (AList.update ''submission'' (g x) kvs)"
      by (simp add: resubmit_def x)
    have n: "dict_get (resubmit g x) ''name'' JNull = dict_get x ''name'' JNull"
      and c: "dict_get (resubmit g x) ''course_name'' JNull = dict_get x ''course_name'' JNull"
      and t: "\<And>u. create_todoist_task w (resubmit g x) u = create_todoist_task w x u"
      unfolding r by (simp_all only: x dict_get_ignores_submission
          create_todoist_task_ignores_submission list.inject char.inject simp_thms)
    show ?thesis
      unfolding counts list.map publish_loop.simps n c t
      by (simp only: Cons.IH)
  qed
qed

lemma collector_no_error:
  "get_canvas_assignments_for_courses w course_ids s = ((Some out, err), s') \<Longrightarrow> err = None"
  by (auto simp: get_canvas_assignments_for_courses_def split: if_splits prod.splits)

lemma run_sync_process_publishes:
  assumes "\<not> is_syncing u" "canvas_url u \<noteq> []" "canvas_api_key u \<noteq> []" "todoist_api_key u \<noteq> []"
    and "get_selected_courses_from_gui u \<noteq> []"
    and "get_canvas_assignments_for_courses w (get_selected_courses_from_gui u)
           (log (Msg ''--- Starting Sync Process for {} selected courses ---''
              [N (int (length (get_selected_courses_from_gui u)))])
              ((save_course_selection w (get_selected_courses_from_gui u) u)
                 \<lparr>is_syncing := True, sync_button := (''Syncing...'', ''disabled'')\<rparr>))
         = ((Some out, None), s')"
    and "out \<noteq> []"
  shows "run_sync_process w u =
     (case publish_loop w (length out) 0 out
             (log (Msg ''Note: Duplicate checking relies on Todoist idempotency key.'' []) s')
             (0, 0) of
        (Inl e, s2) \<Rightarrow> (Inl e, s2)
      | (Inr (synced_count, error_count), s2) \<Rightarrow>
          (Inr (Finished synced_count error_count),
           finish_sync (sync_report synced_count error_count s2)))"
  using assms unfolding run_sync_process_def by simp

text \<open>
  C1. The list \<open>get_canvas_assignments_for_courses\<close> returns is \<open>collect\<close> of the
  replies: course after course, the assignments of the course's own listing that the
  test of line 235 keeps, in the order of the listing, each with the label resolved from
  the reply to the label request of the same course. No assignment of the list carries
  a \<open>submitted_at\<close> that is truthy; a submitted timestamp is, so with the values the
  specification gives \<open>submitted_at\<close>, a timestamp or null, no assignment of the list
  carries one that is not null. The test is made at collection time only:
  \<open>run_sync_process\<close> hands the whole list to \<open>publish_loop\<close>, and \<open>publish_loop\<close> does
  the same whatever stands under \<open>submission\<close> in the assignments.
\<close>

theorem collected_assignments_unsubmitted_and_labelled:
  assumes "get_canvas_assignments_for_courses w course_ids s = ((Some out, err), s')"
  shows "out = collect w (with_slash (canvas_url s)) (bearer (canvas_api_key s)) (sent s) course_ids
     \<and> (\<forall>a\<in>set out. \<forall>t. stamp_of a = Some t \<longrightarrow> \<not> truthy t)
     \<and> (\<forall>a\<in>set out. (\<forall>t. stamp_of a = Some t \<longrightarrow> timestamp_or_null t)
            \<longrightarrow> \<not> carries_submitted_at a)
     \<and> (\<forall>g tot i u counts.
           publish_loop w tot i (map (resubmit g) out) u counts = publish_loop w tot i out u counts)
     \<and> (\<forall>u. \<not> is_syncing u \<and> canvas_url u \<noteq> [] \<and> canvas_api_key u \<noteq> []
            \<and> todoist_api_key u \<noteq> []
            \<and> course_ids = get_selected_courses_from_gui u \<and> course_ids \<noteq> []
            \<and> s = log (Msg ''--- Starting Sync Process for {} selected courses ---''
                     [N (int (length course_ids))])
                     ((save_course_selection w course_ids u)
                        \<lparr>is_syncing := True, sync_button := (''Syncing...'', ''disabled'')\<rparr>)
            \<and> out \<noteq> []
          \<longrightarrow> run_sync_process w u =
                (case publish_loop w (length out) 0 out
                        (log (Msg ''Note: Duplicate checking relies on Todoist idempotency key.'' []) s')
                        (0, 0) of
                   (Inl e, s2) \<Rightarrow> (Inl e, s2)
                 | (Inr (synced_count, error_count), s2) \<Rightarrow>
                     (Inr (Finished synced_count error_count),
                      finish_sync (sync_report synced_count error_count s2))))"
proof -
  have exact: "out = collect w (with_slash (canvas_url s)) (bearer (canvas_api_key s)) (sent s) course_ids"
    by (rule collector_exact[OF assms])
  have kept: "kept a" if "a \<in> set out" for a
    using that exact collect_kept by blast
  have falsy: "\<not> truthy t" if "a \<in> set out" "stamp_of a = Some t" for a t
    using kept[OF that(1)] that(2) by (rule kept_stamp)
  have domain: "\<not> carries_submitted_at a"
    if a: "a \<in> set out" and d: "\<forall>t. stamp_of a = Some t \<longrightarrow> timestamp_or_null t" for a
  proof (cases "stamp_of a")
    case None
    then show ?thesis by (simp add: carries_submitted_at_def)
  next
    case (Some t)
    from d Some have "timestamp_or_null t" by simp
    moreover from falsy[OF a Some] have "\<not> truthy t" .
    ultimately have "t = JNull" by (rule timestamp_or_null_truthy)
    with Some show ?thesis by (simp add: carries_submitted_at_def)
  qed
  have once: "publish_loop w tot i (map (resubmit g) out) u counts = publish_loop w tot i out u counts"
    for g tot i u counts
    by (rule publish_loop_ignores_submission)
  have err: "err = None" by (rule collector_no_error[OF assms])
  have handed: "run_sync_process w u =
                (case publish_loop w (length out) 0 out
                        (log (Msg ''Note: Duplicate checking relies on Todoist idempotency key.'' []) s')
                        (0, 0) of
                   (Inl e, s2) \<Rightarrow> (Inl e, s2)
                 | (Inr (synced_count, error_count), s2) \<Rightarrow>
                     (Inr (Finished synced_count error_count),
                      finish_sync (sync_report synced_count error_count s2)))"
    if "\<not> is_syncing u" "canvas_url u \<noteq> []" "canvas_api_key u \<noteq> []" "todoist_api_key u \<noteq> []"
      and ids: "course_ids = get_selected_courses_from_gui u" and "course_ids \<noteq> []"
      and s: "s = log (Msg ''--- Starting Sync Process for {} selected courses ---''
                     [N (int (length course_ids))])
                     ((save_course_selection w course_ids u)
                        \<lparr>is_syncing := True, sync_button := (''Syncing...'', ''disabled'')\<rparr>)"
      and "out \<noteq> []" for u
  proof (rule run_sync_process_publishes)
    show "get_canvas_assignments_for_courses w (get_selected_courses_from_gui u)
           (log (Msg ''--- Starting Sync Process for {} selected courses ---''
              [N (int (length (get_selected_courses_from_gui u)))])
              ((save_course_selection w (get_selected_courses_from_gui u) u)
                 \<lparr>is_syncing := True, sync_button := (''Syncing...'', ''disabled'')\<rparr>))
         = ((Some out, None), s')"
      using assms err unfolding s ids by simp
  qed (use that in simp_all)
  from exact falsy domain once handed show ?thesis by blast
qed

theorem collected_assignments_unsubmitted_and_labelled_witness:
  "collect (world0 sync_replies) (with_slash (canvas_url app1)) (bearer (canvas_api_key app1)) 0
       [KInt 101, KInt 102]
     = [JObj [(''name'', JStr ''HW1''), (''submission'', JNull),
              (''course_name'', JStr ''MATH101'')],
        JObj [(''name'', JStr ''HW3''), (''submission'', JObj [(''submitted_at'', JNull)]),
              (''course_name'', JStr ''MATH101'')]]
   \<and> \<not> carries_submitted_at
         (JObj [(''name'', JStr ''HW3''), (''submission'', JObj [(''submitted_at'', JNull)]),
                (''course_name'', JStr ''MATH101'')])
   \<and> carries_submitted_at
         (hw ''HW2'' (JObj [(''submitted_at'', JStr ''2026-01-05T10:00:00Z'')]))
   \<and> fst (run_sync_process (world0 sync_replies) app1) = Inr (Finished 2 0)"
proof -
  let ?w = "world0 sync_replies"
  let ?ids = "[KInt 101, KInt 102]"
  let ?s = "log (Msg ''--- Starting Sync Process for {} selected courses ---''
              [N (int (length ?ids))])
              ((save_course_selection ?w ?ids app1)
                 \<lparr>is_syncing := True, sync_button := (''Syncing...'', ''disabled'')\<rparr>)"
  let ?run = "get_canvas_assignments_for_courses ?w ?ids ?s"
  let ?hw1 = "JObj [(''name'', JStr ''HW1''), (''submission'', JNull),
              (''course_name'', JStr ''MATH101'')]"
  let ?hw3 = "JObj [(''name'', JStr ''HW3''), (''submission'', JObj [(''submitted_at'', JNull)]),
              (''course_name'', JStr ''MATH101'')]"
  have r: "fst ?run = (Some [?hw1, ?hw3], None)"
    by code_simp
  have prem: "?run = ((Some [?hw1, ?hw3], None), snd ?run)"
    using r by (metis prod.collapse)
  note main = collected_assignments_unsubmitted_and_labelled [OF prem]
  have url: "canvas_url ?s = canvas_url app1" and api: "canvas_api_key ?s = canvas_api_key app1"
    and sent: "sent ?s = 0"
    by (simp_all add: save_course_selection_def log_def emit_def app1_def app0_def)
  have first: "collect ?w (with_slash (canvas_url app1)) (bearer (canvas_api_key app1)) 0 ?ids
      = [?hw1, ?hw3]"
    using main [THEN conjunct1] unfolding url api sent by (rule sym)
  have dom: "\<forall>t. stamp_of ?hw3 = Some t \<longrightarrow> timestamp_or_null t"
    by (simp add: stamp_of_def timestamp_or_null_def)
  have third: "\<not> carries_submitted_at ?hw3"
    using main [THEN conjunct2, THEN conjunct2, THEN conjunct1, THEN bspec, of ?hw3] dom
    by simp
  have dropped: "carries_submitted_at
         (hw ''HW2'' (JObj [(''submitted_at'', JStr ''2026-01-05T10:00:00Z'')]))"
    by (simp add: carries_submitted_at_def stamp_of_def hw_def)
  have hyp: "\<not> is_syncing app1 \<and> canvas_url app1 \<noteq> [] \<and> canvas_api_key app1 \<noteq> []
            \<and> todoist_api_key app1 \<noteq> []
            \<and> ?ids = get_selected_courses_from_gui app1 \<and> ?ids \<noteq> []
            \<and> ?s = ?s
            \<and> [?hw1, ?hw3] \<noteq> []"
    by (simp add: app1_def app0_def get_selected_courses_from_gui_def)
  note handed = main [THEN conjunct2, THEN conjunct2, THEN conjunct2, THEN conjunct2,
      THEN spec, of app1, THEN mp, OF hyp]
  have ev: "fst (case publish_loop ?w (length [?hw1, ?hw3]) 0 [?hw1, ?hw3]
                        (log (Msg ''Note: Duplicate checking relies on Todoist idempotency key.'' [])
                           (snd ?run))
                        (0, 0) of
                   (Inl e, s2) \<Rightarrow> (Inl e, s2)
                 | (Inr (synced_count, error_count), s2) \<Rightarrow>
                     (Inr (Finished synced_count error_count),
                      finish_sync (sync_report synced_count error_count s2)))
             = Inr (Finished 2 0)"
    by code_simp
  have last: "fst (run_sync_process ?w app1) = Inr (Finished 2 0)"
    unfolding handed by (rule ev)
  from first third dropped last show ?thesis
    by (intro conjI)
qed











lemma digit_char_is_digit: "k < 10 \<Longrightarrow> is_digit (digit_char k)"
proof -
  assume "k < 10"
  then have "k \<in> {0, 1, 2, 3, 4, 5, 6, 7, 8, 9}" by auto
  then show ?thesis by (auto simp: is_digit_def digit_char_def)
qed

lemma digit_val_digit_char: "k < 10 \<Longrightarrow> digit_val (digit_char k) = k"
proof -
  assume "k < 10"
  then have "k \<in> {0, 1, 2, 3, 4, 5, 6, 7, 8, 9}" by auto
  then show ?thesis by (auto simp: digit_val_def digit_char_def)
qed

lemma is_digit_plain:
  "is_digit c \<Longrightarrow> \<not> is_space c \<and> c \<noteq> CHR ''-'' \<and> c \<noteq> CHR ''+'' \<and> c \<noteq> CHR ''_''"
  by (auto simp: is_digit_def is_space_def)

lemma str_nat_digits: "str_nat n \<noteq> [] \<and> list_all is_digit (str_nat n)"
proof (induction n rule: str_nat.induct)
  case (1 n)
  show ?case
  proof (cases "n < 10")
    case True
    then show ?thesis by (subst (1 2) str_nat.simps) (simp add: digit_char_is_digit)
  next
    case False
    with 1 have "list_all is_digit (str_nat (n div 10))" by simp
    moreover have "is_digit (digit_char (n mod 10))" by (simp add: digit_char_is_digit)
    ultimately show ?thesis using False by (subst (1 2) str_nat.simps) simp
  qed
qed

lemma digits_value_snoc:
  "is_digit c \<Longrightarrow> digits_value (cs @ [c]) = 10 * digits_value cs + digit_val c"
  by (simp add: digits_value_def)

lemma digits_value_str_nat: "digits_value (str_nat n) = n"
proof (induction n rule: str_nat.induct)
  case (1 n)
  show ?case
  proof (cases "n < 10")
    case True
    then show ?thesis
      by (subst str_nat.simps) (simp add: digits_value_def digit_char_is_digit digit_val_digit_char)
  next
    case False
    with 1 have "digits_value (str_nat (n div 10)) = n div 10" by simp
    then show ?thesis using False
      by (subst str_nat.simps)
         (simp add: digits_value_snoc digit_char_is_digit digit_val_digit_char)
  qed
qed

lemma digits_ok_decimal: "t \<noteq> [] \<Longrightarrow> list_all is_digit t \<Longrightarrow> digits_ok t"
proof (induction t rule: digits_ok.induct)
  case 1
  then show ?case by simp
next
  case (2 c)
  then show ?case by simp
next
  case (3 c d cs)
  from 3(4) have d: "is_digit d" by simp
  then have "d \<noteq> CHR ''_''" using is_digit_plain by blast
  with 3 show ?case by simp
qed

lemma dropWhile_hd: "xs \<noteq> [] \<Longrightarrow> \<not> P (hd xs) \<Longrightarrow> dropWhile P xs = xs"
  by (cases xs) simp_all

lemma strip_decimal: "t \<noteq> [] \<Longrightarrow> list_all is_digit t \<Longrightarrow> strip t = t"
proof -
  assume ne: "t \<noteq> []" and all: "list_all is_digit t"
  then have "\<not> is_space (hd t)" and "\<not> is_space (last t)"
    using is_digit_plain by (auto simp: list_all_iff)
  then have "\<not> is_space (hd t)" and "\<not> is_space (hd (rev t))"
    using ne by (simp_all add: hd_rev)
  then have a: "dropWhile is_space t = t" and b: "dropWhile is_space (rev t) = rev t"
    using ne by (simp_all only: dropWhile_hd rev_is_Nil_conv not_False_eq_True)
  show ?thesis by (simp add: strip_def a b)
qed

lemma int_of_str_decimal:
  assumes "t \<noteq> []" "list_all is_digit t"
  shows "int_of_str t = Inr (int (digits_value t))"
proof -
  from assms have "is_digit (hd t)" by (cases t) simp_all
  then have "hd t \<noteq> CHR ''-''" "hd t \<noteq> CHR ''+''" using is_digit_plain by blast+
  with assms show ?thesis
    by (simp add: int_of_str_def strip_decimal digits_ok_decimal Let_def)
qed

lemma isdigit_decimal: "t \<noteq> [] \<Longrightarrow> list_all is_digit t \<Longrightarrow> isdigit t"
  by (simp add: isdigit_def list_all_iff)

lemma load_ids_strings:
  "\<forall>t\<in>set ts. isdigit t \<longrightarrow> list_all is_digit t \<Longrightarrow>
     load_ids (map JStr ts) = Inr (map (\<lambda>t. int (digits_value t)) (filter isdigit ts))"
proof (induction ts)
  case Nil
  show ?case by simp
next
  case (Cons t ts)
  then have IH: "load_ids (map JStr ts) = Inr (map (\<lambda>t. int (digits_value t)) (filter isdigit ts))"
    by simp
  show ?case
  proof (cases "isdigit t")
    case True
    with Cons.prems have "list_all is_digit t" and "t \<noteq> []" by (auto simp: isdigit_def)
    then have "int_of_str t = Inr (int (digits_value t))" using int_of_str_decimal by blast
    with True IH show ?thesis by simp
  next
    case False
    with IH show ?thesis by simp
  qed
qed

lemma str_int_nonneg: "0 \<le> i \<Longrightarrow> str_int i = str_nat (nat i)"
  by (simp add: str_int_def)

text \<open>
  C10. When the file can be written and no identifier is negative,
  \<open>save_course_selection\<close> leaves in the file the decimal text of every identifier, and
  \<open>load_course_selection\<close> then returns exactly the set that was saved. Of a stored list
  of strings, \<open>load_course_selection\<close> keeps the strings made of digits, as integers, and
  drops the others.
\<close>

theorem save_then_load_is_identity:
  assumes "\<not> write_fails w" and "\<forall>i\<in>set ids. 0 \<le> i"
  shows "config_file (save_course_selection w (map KInt ids) s)
           = JsonFile (JObj [(''selected_course_ids'',
                              JArr (map (\<lambda>i. JStr (str_nat (nat i))) ids))])
     \<and> fst (load_course_selection (save_course_selection w (map KInt ids) s)) = Inr (set ids)
     \<and> (\<forall>ts u. config_file u = JsonFile (JObj [(''selected_course_ids'', JArr (map JStr ts))])
              \<and> (\<forall>t\<in>set ts. isdigit t \<longrightarrow> list_all is_digit t)
           \<longrightarrow> fst (load_course_selection u)
                 = Inr ((\<lambda>t. int (digits_value t)) ` {t \<in> set ts. isdigit t}))"
proof -
  let ?ts = "map (\<lambda>i. str_nat (nat i)) ids"
  have texts: "map (\<lambda>id_int. JStr (py_str id_int)) (map KInt ids) = map JStr ?ts"
    using assms(2) by (induction ids) (simp_all add: str_int_nonneg)
  have saved: "config_file (save_course_selection w (map KInt ids) s)
           = JsonFile (JObj [(''selected_course_ids'', JArr (map JStr ?ts))])"
    using assms(1) unfolding save_course_selection_def selection_document_def texts
    by (simp add: log_def emit_def)
  have load: "fst (load_course_selection u)
                 = Inr ((\<lambda>t. int (digits_value t)) ` {t \<in> set ts. isdigit t})"
    if "config_file u = JsonFile (JObj [(''selected_course_ids'', JArr (map JStr ts))])"
      and "\<forall>t\<in>set ts. isdigit t \<longrightarrow> list_all is_digit t" for ts u
    using that(1) load_ids_strings[OF that(2)]
    by (simp add: load_course_selection_def)
  have decimal: "\<forall>t\<in>set ?ts. isdigit t \<longrightarrow> list_all is_digit t"
    using str_nat_digits by auto
  have all: "filter isdigit ?ts = ?ts"
    using str_nat_digits by (auto simp: filter_id_conv intro: isdigit_decimal)
  have restore: "(\<lambda>t. int (digits_value t)) ` set ?ts = set ids"
  proof -
    have "int (digits_value (str_nat (nat i))) = i" if "i \<in> set ids" for i
      using that assms(2) by (simp add: digits_value_str_nat)
    then show ?thesis by (force simp: image_iff)
  qed
  have "{t \<in> set ?ts. isdigit t} = set (filter isdigit ?ts)" by simp
  then have keep: "{t \<in> set ?ts. isdigit t} = set ?ts" unfolding all .
  have round: "fst (load_course_selection (save_course_selection w (map KInt ids) s)) = Inr (set ids)"
    using load[OF saved decimal] unfolding keep restore .
  have first: "config_file (save_course_selection w (map KInt ids) s)
           = JsonFile (JObj [(''selected_course_ids'',
                              JArr (map (\<lambda>i. JStr (str_nat (nat i))) ids))])"
    using saved by (simp add: comp_def)
  from first round load show ?thesis by blast
qed

theorem save_then_load_is_identity_witness:
  "config_file (save_course_selection (world0 []) [KInt 101, KInt 102] app0)
      = JsonFile (JObj [(''selected_course_ids'', JArr [JStr ''101'', JStr ''102''])])
   \<and> fst (load_course_selection (save_course_selection (world0 []) [KInt 101, KInt 102] app0))
      = Inr {101, 102}
   \<and> fst (load_course_selection
        (app0\<lparr>config_file := JsonFile (JObj [(''selected_course_ids'',
             JArr (map JStr [''101'', ''x7'', ''102'', []]))])\<rparr>)) = Inr {101, 102}"
proof -
  have w: "\<not> write_fails (world0 [])" by (simp add: world0_def)
  have ids: "\<forall>i\<in>set [101, 102 :: int]. 0 \<le> i" by simp
  note main = save_then_load_is_identity [of "world0 []" "[101, 102]" app0, OF w ids]
  have t1: "str_nat 101 = ''101''" and t2: "str_nat 102 = ''102''"
    by code_simp+
  have first: "config_file (save_course_selection (world0 []) [KInt 101, KInt 102] app0)
      = JsonFile (JObj [(''selected_course_ids'', JArr [JStr ''101'', JStr ''102''])])"
    using main [THEN conjunct1] by (simp add: t1 t2)
  have second: "fst (load_course_selection (save_course_selection (world0 []) [KInt 101, KInt 102] app0))
      = Inr {101, 102}"
    using main [THEN conjunct2, THEN conjunct1] by simp
  let ?ts = "[''101'', ''x7'', ''102'', []]"
  let ?u = "app0\<lparr>config_file := JsonFile (JObj [(''selected_course_ids'', JArr (map JStr ?ts))])\<rparr>"
  have hyp: "config_file ?u = JsonFile (JObj [(''selected_course_ids'', JArr (map JStr ?ts))])
      \<and> (\<forall>t\<in>set ?ts. isdigit t \<longrightarrow> list_all is_digit t)"
    by (simp add: isdigit_def is_digit_def)
  have sel: "{t \<in> set ?ts. isdigit t} = {''101'', ''102''}"
    by (auto simp: isdigit_def is_digit_def)
  have v1: "digits_value ''101'' = 101" and v2: "digits_value ''102'' = 102"
    by code_simp+
  have third: "fst (load_course_selection ?u) = Inr {101, 102}"
    using main [THEN conjunct2, THEN conjunct2, THEN spec, THEN spec, THEN mp, OF hyp]
    unfolding sel by (simp add: v1 v2)
  from first second third show ?thesis by (intro conjI)
qed

lemma trace_emit [simp]: "trace (emit e s) = trace s @ [e]"
  by (simp add: emit_def)

lemma trace_log [simp]: "trace (log m s) = trace s @ [Log m]"
  by (simp add: log_def)

lemma requests_of_append [simp]: "requests_of (xs @ ys) = requests_of xs @ requests_of ys"
  by (induction xs rule: requests_of.induct) simp_all

lemma config_file_emit [simp]: "config_file (emit e s) = config_file s"
  by (simp add: emit_def)

lemma config_file_log [simp]: "config_file (log m s) = config_file s"
  by (simp add: log_def)

lemma sends_only_refl: "sends_only s s Q"
  by (simp add: sends_only_def)

lemma sends_only_trans:
  assumes "sends_only s s1 Q" and "sends_only s1 s2 Q"
  shows "sends_only s s2 Q"
proof -
  from assms obtain a b where a: "trace s1 = trace s @ a" "set (requests_of a) \<subseteq> Q"
    and b: "trace s2 = trace s1 @ b" "set (requests_of b) \<subseteq> Q"
    and c: "config_file s1 = config_file s" "config_file s2 = config_file s1"
    unfolding sends_only_def by blast
  have "\<exists>evs. trace s2 = trace s @ evs \<and> set (requests_of evs) \<subseteq> Q"
    by (rule exI[of _ "a @ b"]) (use a b in simp)
  with c show ?thesis unfolding sends_only_def by simp
qed

lemma sends_only_mono: "sends_only s s' P \<Longrightarrow> P \<subseteq> Q \<Longrightarrow> sends_only s s' Q"
  unfolding sends_only_def by blast

lemma sends_only_emit:
  "set (requests_of [e]) \<subseteq> Q \<Longrightarrow> sends_only s (emit e s) Q"
  unfolding sends_only_def by (intro conjI exI[of _ "[e]"]) simp_all

lemma sends_only_log: "sends_only s (log m s) Q"
  unfolding log_def by (rule sends_only_emit) simp


lemma sends_only_sleep: "sends_only s (emit (Sleep n) s) Q"
  by (rule sends_only_emit) simp

lemma sends_only_send: "send w q s = (x, s1) \<Longrightarrow> sends_only s s1 {q}"
  unfolding sends_only_def
  by (intro conjI exI[of _ "[Request q]"]) (auto simp: send_def)

lemma sends_only_new_requests: "sends_only s s' Q \<Longrightarrow> set (new_requests s s') \<subseteq> Q"
  by (auto simp: sends_only_def new_requests_def new_events_def)

lemma due_string_sends: "due_string w a s = (x, s1) \<Longrightarrow> sends_only s s1 {}"
  by (auto simp: due_string_def sends_only_refl sends_only_log
      split: sum.splits if_splits json.splits option.splits)

lemma hash_of_Inr: "hash_of w x = Inr h \<Longrightarrow> h = py_hash w x"
  by (cases x) auto

lemma task_request_sends: "task_request w a s = (x, s0) \<Longrightarrow> sends_only s s0 {}"
  by (auto simp: task_request_def sends_only_refl dest: due_string_sends
      split: sum.splits prod.splits)

lemma task_request_header:
  assumes "task_request w a s = (Inr q, s0)"
  shows "\<exists>x hdrs d. hash_input a = Inr x
      \<and> q = POST ''https://api.todoist.com/rest/v2/tasks'' hdrs d 15
      \<and> map_of hdrs ''X-Request-Id'' = Some (str_int (py_hash w x))"
  using assms
  by (auto simp: task_request_def dest!: hash_of_Inr split: sum.splits prod.splits)

lemma time_sleep_sends: "time_sleep w n s = (x, s1) \<Longrightarrow> sends_only s s1 Q"
  by (auto simp: time_sleep_def sends_only_refl sends_only_sleep split: if_splits)

lemma rate_limited_sends:
  assumes "rate_limited w q resp s = (x, s1)"
  shows "sends_only s s1 {q}"
proof (cases "case header_get (headers resp) ''Retry-After'' of None \<Rightarrow> Inr 10 | Some v \<Rightarrow> int_of_str v")
  case (Inl e)
  with assms show ?thesis by (simp add: rate_limited_def sends_only_refl)
next
  case (Inr n)
  let ?s0 = "log (Msg ''Todoist rate limit hit. Waiting {} seconds...'' [N n]) s"
  obtain y s2 where sl: "time_sleep w n ?s0 = (y, s2)" by (cases "time_sleep w n ?s0") auto
  have a: "sends_only s s2 {q}"
    using sends_only_trans[OF sends_only_log time_sleep_sends[OF sl]] .
  show ?thesis
  proof (cases y)
    case (Inl e)
    with assms Inr sl a show ?thesis by (simp add: rate_limited_def)
  next
    case (Inr u)
    with assms \<open>_ = Inr n\<close> sl have "send w q s2 = (x, s1)" by (simp add: rate_limited_def)
    from sends_only_trans[OF a sends_only_send[OF this]] show ?thesis .
  qed
qed

lemma post_task_sends:
  assumes "post_task w q a s = (x, s1)"
  shows "sends_only s s1 {q}"
proof -
  obtain y s2 where first: "send w q s = (y, s2)" by (cases "send w q s") auto
  note a = sends_only_send[OF first]
  show ?thesis
  proof (cases y)
    case (Inl e)
    with assms first a show ?thesis by (simp add: post_task_def)
  next
    case (Inr resp)
    obtain z s3 where second:
      "(if status_code resp = 429 then rate_limited w q resp s2 else (Inr resp, s2)) = (z, s3)"
      by (cases "if status_code resp = 429 then rate_limited w q resp s2 else (Inr resp, s2)") auto
    have b: "sends_only s2 s3 {q}"
      using second by (auto simp: sends_only_refl dest: rate_limited_sends split: if_splits)
    note ab = sends_only_trans[OF a b]
    have "s1 = s3 \<or> (\<exists>m. s1 = log m s3)"
      using assms first Inr second
      by (auto simp: post_task_def split: sum.splits)
    then show ?thesis
      using ab sends_only_trans[OF ab sends_only_log] by auto
  qed
qed

lemma create_todoist_task_sends:
  assumes "create_todoist_task w a s = (r, s')"
  shows "sends_only s s'
     {q. \<exists>x hdrs d. hash_input a = Inr x
          \<and> q = POST ''https://api.todoist.com/rest/v2/tasks'' hdrs d 15
          \<and> map_of hdrs ''X-Request-Id'' = Some (str_int (py_hash w x))}"
    (is "sends_only s s' ?Q")
proof (cases "todoist_api_key s = []")
  case True
  with assms show ?thesis by (auto simp: create_todoist_task_def sends_only_log)
next
  case False
  obtain y s0 where tr: "task_request w a s = (y, s0)" by (cases "task_request w a s") auto
  have a: "sends_only s s0 ?Q"
    using sends_only_mono[OF task_request_sends[OF tr]] by simp
  show ?thesis
  proof (cases y)
    case (Inl e)
    with assms False tr a show ?thesis by (simp add: create_todoist_task_def)
  next
    case (Inr q)
    with task_request_header tr have q: "q \<in> ?Q" by blast
    obtain z s1 where pt: "post_task w q a s0 = (z, s1)" by (cases "post_task w q a s0") auto
    have b: "sends_only s0 s1 ?Q"
      using sends_only_mono[OF post_task_sends[OF pt]] q by simp
    note ab = sends_only_trans[OF a b]
    have "s' = s1 \<or> (\<exists>m. s' = log m s1)"
      using assms False tr Inr pt by (auto simp: create_todoist_task_def split: sum.splits)
    then show ?thesis
      using ab sends_only_trans[OF ab sends_only_log] by auto
  qed
qed

lemma hash_input_dict:
  "hash_input (JObj kvs) =
     Inr (case map_of kvs ''html_url'' of
            Some v \<Rightarrow> v
          | None \<Rightarrow> (case map_of kvs ''id'' of Some i \<Rightarrow> i | None \<Rightarrow> JNull))"
  by (simp add: hash_input_def split: option.splits)

text \<open>
  C9. Every request a call of \<open>create_todoist_task\<close> sends for an assignment carries, as
  its \<open>X-Request-Id\<close>, the decimal text of the hash of the assignment's hash input, which
  is what stands under \<open>html_url\<close>, or under \<open>id\<close> when there is no \<open>html_url\<close>. So the
  requests of any other call, in any state, for an assignment with the same hash input
  carry the same value.
\<close>

theorem idempotency_header_is_stable:
  assumes "create_todoist_task w a s = (r, s')"
  shows "(\<forall>q\<in>set (new_requests s s'). \<exists>x. hash_input a = Inr x
            \<and> request_id_of q = Some (str_int (py_hash w x)))
     \<and> (\<forall>b u. hash_input b = hash_input a \<longrightarrow>
            (\<forall>q\<in>set (new_requests s s').
             \<forall>q'\<in>set (new_requests u (snd (create_todoist_task w b u))).
               request_id_of q' = request_id_of q))
     \<and> (\<forall>kvs. hash_input (JObj kvs) =
            Inr (case map_of kvs ''html_url'' of
                   Some v \<Rightarrow> v
                 | None \<Rightarrow> (case map_of kvs ''id'' of Some i \<Rightarrow> i | None \<Rightarrow> JNull)))"
proof -
  have each: "\<exists>x. hash_input c = Inr x \<and> request_id_of q = Some (str_int (py_hash w x))"
    if "create_todoist_task w c v = (y, v')" and "q \<in> set (new_requests v v')" for c v y v' q
  proof -
    from sends_only_new_requests[OF create_todoist_task_sends[OF that(1)]] that(2)
    obtain x hdrs d where "hash_input c = Inr x"
      "q = POST ''https://api.todoist.com/rest/v2/tasks'' hdrs d 15"
      "map_of hdrs ''X-Request-Id'' = Some (str_int (py_hash w x))"
      by blast
    then show ?thesis by simp
  qed
  have first: "\<forall>q\<in>set (new_requests s s'). \<exists>x. hash_input a = Inr x
            \<and> request_id_of q = Some (str_int (py_hash w x))"
    using each[OF assms] by blast
  have second: "request_id_of q' = request_id_of q"
    if same: "hash_input b = hash_input a" and q: "q \<in> set (new_requests s s')"
      and q': "q' \<in> set (new_requests u (snd (create_todoist_task w b u)))" for b u q q'
  proof -
    have run: "create_todoist_task w b u
        = (fst (create_todoist_task w b u), snd (create_todoist_task w b u))" by simp
    from each[OF assms q] obtain x where x: "hash_input a = Inr x"
      "request_id_of q = Some (str_int (py_hash w x))" by blast
    from each[OF run q'] obtain x' where x': "hash_input b = Inr x'"
      "request_id_of q' = Some (str_int (py_hash w x'))" by blast
    from same x(1) x'(1) have "x' = x" by simp
    with x(2) x'(2) show ?thesis by simp
  qed
  from first second hash_input_dict show ?thesis by blast
qed

theorem idempotency_header_is_stable_witness:
  "length (new_requests app0 (snd (create_todoist_task (world0 busy_replies) essay app0))) = 2
   \<and> request_id_of (hd (new_requests app0
        (snd (create_todoist_task (world0 busy_replies) essay app0)))) = Some ''27''
   \<and> request_id_of (hd (new_requests
        (snd (create_todoist_task (world0 busy_replies) essay app0))
        (snd (create_todoist_task (world0 busy_replies) essay_renamed
           (snd (create_todoist_task (world0 busy_replies) essay app0)))))) = Some ''27''"
proof -
  let ?w = "world0 busy_replies"
  let ?run = "create_todoist_task ?w essay app0"
  let ?u = "snd ?run"
  let ?q = "hd (new_requests app0 ?u)"
  let ?q' = "hd (new_requests ?u (snd (create_todoist_task ?w essay_renamed ?u)))"
  have prem: "?run = (fst ?run, snd ?run)" by simp
  note main = idempotency_header_is_stable [OF prem]
  have two: "length (new_requests app0 ?u) = 2" by code_simp
  then have q: "?q \<in> set (new_requests app0 ?u)"
    by (intro hd_in_set) auto
  have "length (new_requests ?u (snd (create_todoist_task ?w essay_renamed ?u))) = 1"
    by code_simp
  then have q': "?q' \<in> set (new_requests ?u (snd (create_todoist_task ?w essay_renamed ?u)))"
    by (intro hd_in_set) auto
  have input: "hash_input essay = Inr (JStr ''https://canvas.example/a/55'')"
    and same: "hash_input essay_renamed = hash_input essay"
    by (simp_all add: hash_input_def essay_def essay_renamed_def)
  have decimal: "str_int (py_hash ?w (JStr ''https://canvas.example/a/55'')) = ''27''"
    by code_simp
  from main [THEN conjunct1, THEN bspec, OF q] input decimal
  have first: "request_id_of ?q = Some ''27''" by auto
  from main [THEN conjunct2, THEN conjunct1, THEN spec, THEN spec, THEN mp, OF same,
      THEN bspec, OF q, THEN bspec, OF q'] first
  have second: "request_id_of ?q' = Some ''27''" by simp
  from two first second show ?thesis by (intro conjI)
qed
























end
